theory Spec2Isabelle
  imports Complex_Main "HOL-Library.Word" "HOL-Library.Signed_Division"
begin

unbundle bit_operations_syntax

section \<open>Machine model of the WebAssembly target\<close>

text \<open>
  The three wrappers are compiled for wasm32: \<open>int\<close>, \<open>int32_t\<close>, \<open>unsigned\<close>,
  \<open>ptrdiff_t\<close> and every pointer are 32 bits wide. Arithmetic is two's complement and
  wraps; \<open>sint\<close> reads a value as C's \<open>int\<close>, \<open>unat\<close> as \<open>unsigned\<close> or \<open>size_t\<close>.
\<close>

type_synonym byte = "8 word"
type_synonym int32 = "32 word"
type_synonym addr = "32 word"

text \<open>Memory owned by a codec library or by the host, read through raw addresses.\<close>

type_synonym memory = "addr \<Rightarrow> byte"

text \<open>What a non-null \<open>const uint8_t *\<close> argument points at.\<close>

type_synonym cbytes = "nat \<Rightarrow> byte"

text \<open>C's \<open>/\<close> on \<open>int\<close> truncates towards zero.\<close>

definition c_div :: "int32 \<Rightarrow> int32 \<Rightarrow> int32" where
  "c_div a b = word_of_int (sint a sdiv sint b)"

definition read_bytes :: "memory \<Rightarrow> addr \<Rightarrow> nat \<Rightarrow> byte list" where
  "read_bytes m a n = map (\<lambda>i. m (a + of_nat i)) [0..<n]"

subsection \<open>The output frame struct\<close>

record DecodedFrame =
  width :: int32
  height :: int32
  chromaFormat :: int32
  bitDepth :: int32
  yPtr :: addr
  uPtr :: addr
  vPtr :: addr
  ySize :: int32
  uvSize :: int32

subsection \<open>The allocator and the blocks it hands out\<close>

text \<open>
  Undefined behaviour of the C program is a value: a pointer that does not name a live
  block of the right kind, or a copy that runs past the end of its destination block.
\<close>

datatype fault = InvalidPointer | OutOfBounds

datatype 'd obj = Bytes "byte list" | Frame DecodedFrame | Dec 'd

text \<open>
  \<open>blocks\<close> are the live allocations of the wrapper, by address. \<open>answers\<close> lists the
  answers the allocator will give to the coming requests (0 is exhaustion), and
  \<open>uninit\<close> the indeterminate contents of fresh memory.
\<close>

record 'd heap =
  blocks :: "addr \<Rightarrow> 'd obj option"
  answers :: "addr list"
  uninit :: "nat \<Rightarrow> byte"

text \<open>\<open>malloc\<close>: NULL on failure, otherwise an address that is not live at the moment.\<close>

definition malloc :: "int32 \<Rightarrow> 'd heap \<Rightarrow> addr \<times> 'd heap" where
  "malloc n s =
    (case answers s of
       [] \<Rightarrow> (0, s)
     | a # rest \<Rightarrow>
         if a = 0 \<or> blocks s a \<noteq> None then (0, s\<lparr>answers := rest\<rparr>)
         else (a, s\<lparr>blocks := (blocks s)(a \<mapsto> Bytes (map (uninit s) [0..<unat n])),
                     answers := rest\<rparr>))"

text \<open>\<open>free\<close>: nothing on NULL, undefined on an address that is not live.\<close>

definition free :: "addr \<Rightarrow> 'd heap \<Rightarrow> fault + 'd heap" where
  "free a s =
    (if a = 0 then Inr s
     else if blocks s a = None then Inl InvalidPointer
     else Inr (s\<lparr>blocks := (blocks s)(a := None)\<rparr>))"

text \<open>An allocation made inside a codec library: it answers from the same allocator,
  and the block stays with the library.\<close>

definition lib_alloc :: "'d heap \<Rightarrow> bool \<times> 'd heap" where
  "lib_alloc s =
    (case answers s of
       [] \<Rightarrow> (False, s)
     | a # rest \<Rightarrow> (a \<noteq> 0 \<and> blocks s a = None, s\<lparr>answers := rest\<rparr>))"

text \<open>Sequencing of steps that may be undefined.\<close>

definition and_then :: "fault + 'a \<Rightarrow> ('a \<Rightarrow> fault + 'b) \<Rightarrow> fault + 'b" where
  "and_then m k = (case m of Inl e \<Rightarrow> Inl e | Inr x \<Rightarrow> k x)"

text \<open>
  \<open>memcpy(dst + off, src, n)\<close> where \<open>dst\<close> is a block of the wrapper and \<open>src\<close> an
  address in library memory.
\<close>

definition memcpy :: "addr \<Rightarrow> int32 \<Rightarrow> memory \<Rightarrow> addr \<Rightarrow> int32 \<Rightarrow> 'd heap \<Rightarrow> fault + 'd heap" where
  "memcpy dst off m src n s =
    (case blocks s dst of
       Some (Bytes blk) \<Rightarrow>
         if unat off + unat n \<le> length blk
         then Inr (s\<lparr>blocks := (blocks s)(dst \<mapsto>
                Bytes (take (unat off) blk @ read_bytes m src (unat n)
                       @ drop (unat off + unat n) blk))\<rparr>)
         else Inl OutOfBounds
     | _ \<Rightarrow> Inl InvalidPointer)"

text \<open>
  \<open>for (row = 0; row < n; row++) body\<close>, over the rows \<open>[0..<n]\<close> the counter takes.
\<close>

primrec for_rows :: "nat list \<Rightarrow> (int32 \<Rightarrow> 's \<Rightarrow> fault + 's) \<Rightarrow> 's \<Rightarrow> fault + 's" where
  "for_rows [] body s = Inr s"
| "for_rows (r # rs) body s = and_then (body (of_nat r) s) (for_rows rs body)"

text \<open>\<open>free_frame\<close> is the same text in the three wrappers.\<close>

definition free_frame :: "int32 \<Rightarrow> 'd heap \<Rightarrow> fault + 'd heap" where
  "free_frame ptr s =
    (if ptr = 0 then Inr s
     else case blocks s ptr of
       Some (Frame frame) \<Rightarrow>
         and_then (free (yPtr frame) s) (\<lambda>s1.
         and_then (free (uPtr frame) s1) (\<lambda>s2.
         and_then (free (vPtr frame) s2) (\<lambda>s3.
         free ptr s3)))
     | _ \<Rightarrow> Inl InvalidPointer)"

section \<open>AV1 wrapper (dav1d)\<close>

text \<open>The pixel layouts of dav1d's public header and the fields of its picture that
  the wrapper reads.\<close>

datatype Dav1dPixelLayout =
  DAV1D_PIXEL_LAYOUT_I400 | DAV1D_PIXEL_LAYOUT_I420
  | DAV1D_PIXEL_LAYOUT_I422 | DAV1D_PIXEL_LAYOUT_I444

record Dav1dPicture =
  p_w :: int32
  p_h :: int32
  p_layout :: Dav1dPixelLayout
  p_bpc :: int32
  pic_data :: "nat \<Rightarrow> addr"
  pic_stride :: "nat \<Rightarrow> int32"

definition layout_to_format :: "Dav1dPixelLayout \<Rightarrow> int32" where
  "layout_to_format layout =
    (case layout of
       DAV1D_PIXEL_LAYOUT_I444 \<Rightarrow> 444
     | DAV1D_PIXEL_LAYOUT_I422 \<Rightarrow> 422
     | _ \<Rightarrow> 420)"

text \<open>Lines 54-60 of the AV1 wrapper: the chroma plane dimensions.\<close>

definition av1_chroma_dims :: "int32 \<Rightarrow> int32 \<Rightarrow> Dav1dPixelLayout \<Rightarrow> int32 \<times> int32" where
  "av1_chroma_dims w h layout =
    (if layout = DAV1D_PIXEL_LAYOUT_I420 then (c_div (w + 1) 2, c_div (h + 1) 2)
     else if layout = DAV1D_PIXEL_LAYOUT_I422 then (c_div (w + 1) 2, h)
     else (w, h))"

definition av1_extract_picture ::
  "memory \<Rightarrow> Dav1dPicture option \<Rightarrow> 'd heap \<Rightarrow> fault + addr \<times> 'd heap" where
  "av1_extract_picture m pic_ptr s =
    (case pic_ptr of
       None \<Rightarrow> Inr (0, s)
     | Some pic \<Rightarrow>
       if pic_data pic 0 = 0 then Inr (0, s)
       else
         let width = p_w pic; height = p_h pic; bpc = p_bpc pic; layout = p_layout pic;
             (chromaW, chromaH) = av1_chroma_dims width height layout;
             bytesPerSample = (if 8 <s bpc then 2 else 1);
             ySize = width * height * bytesPerSample;
             uvSize = chromaW * chromaH * bytesPerSample;
             (yOut, s1) = malloc ySize s;
             (uOut, s2) = malloc uvSize s1;
             (vOut, s3) = malloc uvSize s2;
             (frame, s4) = malloc 36 s3
         in
           if yOut = 0 \<or> uOut = 0 \<or> vOut = 0 \<or> frame = 0 then
             and_then (free yOut s4) (\<lambda>s5.
             and_then (free uOut s5) (\<lambda>s6.
             and_then (free vOut s6) (\<lambda>s7.
             and_then (free frame s7) (\<lambda>s8. Inr (0, s8)))))
           else
             let yStride = pic_stride pic 0;
                 yRowBytes = width * bytesPerSample;
                 ySrc = pic_data pic 0
             in
             and_then (for_rows [0..<nat (sint height)]
                 (\<lambda>row. memcpy yOut (row * yRowBytes) m (ySrc + row * yStride) yRowBytes) s4)
               (\<lambda>s5.
             let uvStride = pic_stride pic 1;
                 uvRowBytes = chromaW * bytesPerSample;
                 uSrc = pic_data pic 1;
                 vSrc = pic_data pic 2
             in
             and_then (for_rows [0..<nat (sint chromaH)]
                 (\<lambda>row t.
                    and_then (memcpy uOut (row * uvRowBytes) m (uSrc + row * uvStride) uvRowBytes t)
                      (memcpy vOut (row * uvRowBytes) m (vSrc + row * uvStride) uvRowBytes)) s5)
               (\<lambda>s6.
             Inr (frame, s6\<lparr>blocks := (blocks s6)(frame \<mapsto> Frame
               \<lparr>width = width, height = height,
                chromaFormat = layout_to_format layout, bitDepth = bpc,
                yPtr = yOut, uPtr = uOut, vPtr = vOut,
                ySize = ySize, uvSize = uvSize\<rparr>)\<rparr>))))"

section \<open>HEVC wrapper (libde265)\<close>

datatype de265_chroma =
  de265_chroma_mono | de265_chroma_420 | de265_chroma_422 | de265_chroma_444

text \<open>An image of libde265, as its accessor functions show it: each field is the
  accessor of that name, applied to the image and a channel.\<close>

record de265_image =
  de265_get_image_width :: "nat \<Rightarrow> int32"
  de265_get_image_height :: "nat \<Rightarrow> int32"
  de265_get_bits_per_pixel :: "nat \<Rightarrow> int32"
  de265_get_chroma_format :: de265_chroma
  de265_get_image_plane :: "nat \<Rightarrow> addr \<times> int32"

definition chroma_to_format :: "de265_chroma \<Rightarrow> int32" where
  "chroma_to_format c =
    (case c of
       de265_chroma_444 \<Rightarrow> 444
     | de265_chroma_422 \<Rightarrow> 422
     | _ \<Rightarrow> 420)"

text \<open>Lines 61-67 of the HEVC wrapper.\<close>

definition hevc_chroma_dims :: "int32 \<Rightarrow> int32 \<Rightarrow> de265_chroma \<Rightarrow> int32 \<times> int32" where
  "hevc_chroma_dims w h chroma =
    (if chroma = de265_chroma_420 then (c_div (w + 1) 2, c_div (h + 1) 2)
     else if chroma = de265_chroma_422 then (c_div (w + 1) 2, h)
     else (w, h))"

definition hevc_extract_picture ::
  "memory \<Rightarrow> de265_image option \<Rightarrow> 'd heap \<Rightarrow> fault + addr \<times> 'd heap" where
  "hevc_extract_picture m img_ptr s =
    (case img_ptr of
       None \<Rightarrow> Inr (0, s)
     | Some img \<Rightarrow>
       let width = de265_get_image_width img 0;
           height = de265_get_image_height img 0;
           bpp = de265_get_bits_per_pixel img 0;
           chroma = de265_get_chroma_format img;
           (yPlane, yStride) = de265_get_image_plane img 0;
           (uPlane, uStride) = de265_get_image_plane img 1;
           (vPlane, vStride) = de265_get_image_plane img 2
       in
       if yPlane = 0 \<or> uPlane = 0 \<or> vPlane = 0 then Inr (0, s)
       else
         let (chromaW, chromaH) = hevc_chroma_dims width height chroma;
             bytesPerSample = (if 8 <s bpp then 2 else 1);
             ySize = width * height * bytesPerSample;
             uvSize = chromaW * chromaH * bytesPerSample;
             (yOut, s1) = malloc ySize s;
             (uOut, s2) = malloc uvSize s1;
             (vOut, s3) = malloc uvSize s2;
             (frame, s4) = malloc 36 s3
         in
           if yOut = 0 \<or> uOut = 0 \<or> vOut = 0 \<or> frame = 0 then
             and_then (free yOut s4) (\<lambda>s5.
             and_then (free uOut s5) (\<lambda>s6.
             and_then (free vOut s6) (\<lambda>s7.
             and_then (free frame s7) (\<lambda>s8. Inr (0, s8)))))
           else
             let yRowBytes = width * bytesPerSample in
             and_then (for_rows [0..<nat (sint height)]
                 (\<lambda>row. memcpy yOut (row * yRowBytes) m (yPlane + row * yStride) yRowBytes) s4)
               (\<lambda>s5.
             let uvRowBytes = chromaW * bytesPerSample in
             and_then (for_rows [0..<nat (sint chromaH)]
                 (\<lambda>row t.
                    and_then (memcpy uOut (row * uvRowBytes) m (uPlane + row * uStride) uvRowBytes t)
                      (memcpy vOut (row * uvRowBytes) m (vPlane + row * vStride) uvRowBytes)) s5)
               (\<lambda>s6.
             Inr (frame, s6\<lparr>blocks := (blocks s6)(frame \<mapsto> Frame
               \<lparr>width = width, height = height,
                chromaFormat = chroma_to_format chroma, bitDepth = bpp,
                yPtr = yOut, uPtr = uOut, vPtr = vOut,
                ySize = ySize, uvSize = uvSize\<rparr>)\<rparr>))))"

section \<open>VP9 wrapper (libvpx)\<close>

text \<open>
  The image format constants of libvpx's header that the wrapper names. The header is
  not part of the wrapper, so the constants are a parameter.
\<close>

record vpx_img_fmt_consts =
  VPX_IMG_FMT_I444 :: int32
  VPX_IMG_FMT_I44416 :: int32
  VPX_IMG_FMT_I422 :: int32
  VPX_IMG_FMT_I42216 :: int32
  VPX_IMG_FMT_HIGHBITDEPTH :: int32

text \<open>The fields of \<open>vpx_image_t\<close> the wrapper reads; planes Y, U, V are 0, 1, 2.\<close>

record vpx_image =
  fmt :: int32
  d_w :: int32
  d_h :: int32
  planes :: "nat \<Rightarrow> addr"
  img_stride :: "nat \<Rightarrow> int32"

definition vpx_fmt_to_chroma :: "vpx_img_fmt_consts \<Rightarrow> int32 \<Rightarrow> int32" where
  "vpx_fmt_to_chroma K f =
    (if f = VPX_IMG_FMT_I444 K \<or> f = VPX_IMG_FMT_I44416 K then 444
     else if f = VPX_IMG_FMT_I422 K \<or> f = VPX_IMG_FMT_I42216 K then 422
     else 420)"

definition vpx_fmt_bpc :: "vpx_img_fmt_consts \<Rightarrow> int32 \<Rightarrow> int32" where
  "vpx_fmt_bpc K f = (if f AND VPX_IMG_FMT_HIGHBITDEPTH K \<noteq> 0 then 10 else 8)"

text \<open>Lines 64-70 of the VP9 wrapper.\<close>

definition vp9_chroma_dims :: "int32 \<Rightarrow> int32 \<Rightarrow> int32 \<Rightarrow> int32 \<times> int32" where
  "vp9_chroma_dims w h chromaFmt =
    (if chromaFmt = 420 then (c_div (w + 1) 2, c_div (h + 1) 2)
     else if chromaFmt = 422 then (c_div (w + 1) 2, h)
     else (w, h))"

definition vp9_extract_image ::
  "vpx_img_fmt_consts \<Rightarrow> memory \<Rightarrow> vpx_image option \<Rightarrow> 'd heap \<Rightarrow> fault + addr \<times> 'd heap" where
  "vp9_extract_image K m img_ptr s =
    (case img_ptr of
       None \<Rightarrow> Inr (0, s)
     | Some img \<Rightarrow>
       let width = d_w img; height = d_h img;
           bpc = vpx_fmt_bpc K (fmt img);
           chromaFmt = vpx_fmt_to_chroma K (fmt img);
           (chromaW, chromaH) = vp9_chroma_dims width height chromaFmt;
           bytesPerSample = (if 8 <s bpc then 2 else 1);
           ySize = width * height * bytesPerSample;
           uvSize = chromaW * chromaH * bytesPerSample;
           (yOut, s1) = malloc ySize s;
           (uOut, s2) = malloc uvSize s1;
           (vOut, s3) = malloc uvSize s2;
           (frame, s4) = malloc 36 s3
       in
         if yOut = 0 \<or> uOut = 0 \<or> vOut = 0 \<or> frame = 0 then
           and_then (free yOut s4) (\<lambda>s5.
           and_then (free uOut s5) (\<lambda>s6.
           and_then (free vOut s6) (\<lambda>s7.
           and_then (free frame s7) (\<lambda>s8. Inr (0, s8)))))
         else
           let yRowBytes = width * bytesPerSample in
           and_then (for_rows [0..<unat height]
               (\<lambda>row. memcpy yOut (row * yRowBytes) m
                         (planes img 0 + row * img_stride img 0) yRowBytes) s4)
             (\<lambda>s5.
           let uvRowBytes = chromaW * bytesPerSample in
           and_then (for_rows [0..<unat chromaH]
               (\<lambda>row t.
                  and_then (memcpy uOut (row * uvRowBytes) m
                              (planes img 1 + row * img_stride img 1) uvRowBytes t)
                    (memcpy vOut (row * uvRowBytes) m
                              (planes img 2 + row * img_stride img 2) uvRowBytes)) s5)
             (\<lambda>s6.
           Inr (frame, s6\<lparr>blocks := (blocks s6)(frame \<mapsto> Frame
             \<lparr>width = width, height = height,
              chromaFormat = chromaFmt, bitDepth = bpc,
              yPtr = yOut, uPtr = uOut, vPtr = vOut,
              ySize = ySize, uvSize = uvSize\<rparr>)\<rparr>))))"

section \<open>The exported operations\<close>

text \<open>
  The parameter \<open>sz\<close> is the wrappers' \<open>size\<close>. The codec libraries are black boxes. Each is a record of the functions the wrapper
  calls, over a type \<open>'c\<close> of library context states; a call that changes the context
  returns the new one. The memory the library's pictures live in is read off the context.
\<close>

subsection \<open>AV1\<close>

record Dav1dSettings =
  n_threads :: int32
  max_frame_delay :: int32

record 'c Av1Decoder =
  av1_ctx :: "'c option"
  av1_settings :: Dav1dSettings

record 'c dav1d =
  dav1d_default_settings :: Dav1dSettings
  dav1d_open :: "Dav1dSettings \<Rightarrow> int32 \<times> 'c option"
  dav1d_send_data :: "'c \<Rightarrow> byte list \<Rightarrow> int32 \<times> 'c \<times> byte list"
  dav1d_get_picture :: "'c \<Rightarrow> int32 \<times> 'c \<times> Dav1dPicture"
  dav1d_picture_unref :: "'c \<Rightarrow> Dav1dPicture \<Rightarrow> 'c"
  dav1d_flush :: "'c \<Rightarrow> 'c"
  dav1d_memory :: "'c \<Rightarrow> memory"
  DAV1D_ERR_EAGAIN :: int32
  sizeof_Av1Decoder :: int32

type_synonym 'c av1_state = "'c Av1Decoder heap"

definition av1_create_decoder :: "'c dav1d \<Rightarrow> 'c av1_state \<Rightarrow> fault + int32 \<times> 'c av1_state" where
  "av1_create_decoder L s =
    (let (dec, s1) = malloc (sizeof_Av1Decoder L) s in
     if dec = 0 then Inr (0, s1)
     else
       let settings = (dav1d_default_settings L)\<lparr>n_threads := 1, max_frame_delay := 1\<rparr>;
           (ret, ctx) = dav1d_open L settings
       in
         if ret <s 0 then and_then (free dec s1) (\<lambda>s2. Inr (0, s2))
         else Inr (dec, s1\<lparr>blocks := (blocks s1)(dec \<mapsto>
                Dec \<lparr>av1_ctx = ctx, av1_settings = settings\<rparr>)\<rparr>))"

definition av1_configure :: "int32 \<Rightarrow> cbytes option \<Rightarrow> int32 \<Rightarrow> 'c av1_state \<Rightarrow> 'c av1_state" where
  "av1_configure handle config sz s = s"

text \<open>\<open>do { ret = dav1d_send_data(...); } while (ret == DAV1D_ERR(EAGAIN));\<close> The loop
  has no bound: \<open>None\<close> is the run that never leaves it.\<close>

partial_function (option) av1_send_loop ::
  "'c dav1d \<Rightarrow> 'c \<Rightarrow> byte list \<Rightarrow> ('c \<times> byte list) option" where
  "av1_send_loop L c dav1d_data =
    (case dav1d_send_data L c dav1d_data of
       (ret, c1, rest) \<Rightarrow>
         if ret = DAV1D_ERR_EAGAIN L then av1_send_loop L c1 rest else Some (c1, rest))"

definition av1_decode ::
  "'c dav1d \<Rightarrow> int32 \<Rightarrow> cbytes option \<Rightarrow> int32 \<Rightarrow> int32 \<Rightarrow> 'c av1_state
    \<Rightarrow> (fault + int32 \<times> 'c av1_state) option" where
  "av1_decode L handle data_ptr sz is_keyframe s =
    (if handle = 0 then Some (Inr (0, s))
     else case blocks s handle of
       Some (Dec dec) \<Rightarrow>
         if av1_ctx dec = None \<or> data_ptr = None \<or> sz \<le>s 0 then Some (Inr (0, s))
         else
           let ctx = the (av1_ctx dec);
               (buf_ok, s1) = lib_alloc s
           in
           if \<not> buf_ok then Some (Inr (0, s1))
           else
             (case av1_send_loop L ctx (map (the data_ptr) [0..<unat sz]) of
                None \<Rightarrow> None
              | Some (ctx1, rest) \<Rightarrow>
                  let (ret, ctx2, pic) = dav1d_get_picture L ctx1 in
                  if ret <s 0 then
                    Some (Inr (0, s1\<lparr>blocks := (blocks s1)(handle \<mapsto>
                      Dec (dec\<lparr>av1_ctx := Some ctx2\<rparr>))\<rparr>))
                  else
                    (case av1_extract_picture (dav1d_memory L ctx2) (Some pic) s1 of
                       Inl e \<Rightarrow> Some (Inl e)
                     | Inr (frame, s2) \<Rightarrow>
                         Some (Inr (frame, s2\<lparr>blocks := (blocks s2)(handle \<mapsto>
                           Dec (dec\<lparr>av1_ctx := Some (dav1d_picture_unref L ctx2 pic)\<rparr>))\<rparr>))))
     | _ \<Rightarrow> Some (Inl InvalidPointer))"

definition av1_flush :: "'c dav1d \<Rightarrow> int32 \<Rightarrow> 'c av1_state \<Rightarrow> fault + int32 \<times> 'c av1_state" where
  "av1_flush L handle s =
    (if handle = 0 then Inr (0, s)
     else case blocks s handle of
       Some (Dec dec) \<Rightarrow>
         if av1_ctx dec = None then Inr (0, s)
         else
           let ctx1 = dav1d_flush L (the (av1_ctx dec));
               (ret, ctx2, pic) = dav1d_get_picture L ctx1
           in
           if ret <s 0 then
             Inr (0, s\<lparr>blocks := (blocks s)(handle \<mapsto> Dec (dec\<lparr>av1_ctx := Some ctx2\<rparr>))\<rparr>)
           else
             and_then (av1_extract_picture (dav1d_memory L ctx2) (Some pic) s) (\<lambda>(frame, s2).
               Inr (frame, s2\<lparr>blocks := (blocks s2)(handle \<mapsto>
                 Dec (dec\<lparr>av1_ctx := Some (dav1d_picture_unref L ctx2 pic)\<rparr>))\<rparr>))
     | _ \<Rightarrow> Inl InvalidPointer)"

text \<open>\<open>dav1d_close\<close> ends the context; nothing of it remains once the session block
  is freed.\<close>

definition av1_destroy :: "int32 \<Rightarrow> 'c av1_state \<Rightarrow> fault + 'c av1_state" where
  "av1_destroy handle s =
    (if handle = 0 then Inr s
     else case blocks s handle of
       Some (Dec dec) \<Rightarrow> free handle s
     | _ \<Rightarrow> Inl InvalidPointer)"

subsection \<open>HEVC\<close>

record 'c HevcDecoder =
  hevc_ctx :: "'c option"

record 'c de265 =
  de265_new_decoder :: "'c option"
  de265_start_worker_threads :: "'c \<Rightarrow> int32 \<Rightarrow> 'c"
  de265_push_NAL :: "'c \<Rightarrow> cbytes \<Rightarrow> int32 \<Rightarrow> 'c"
  de265_decode :: "'c \<Rightarrow> 'c"
  de265_get_next_picture :: "'c \<Rightarrow> de265_image option \<times> 'c"
  de265_release_next_picture :: "'c \<Rightarrow> 'c"
  de265_flush_data :: "'c \<Rightarrow> 'c"
  de265_memory :: "'c \<Rightarrow> memory"
  sizeof_HevcDecoder :: int32

type_synonym 'c hevc_state = "'c HevcDecoder heap"

definition hevc_create_decoder :: "'c de265 \<Rightarrow> 'c hevc_state \<Rightarrow> fault + int32 \<times> 'c hevc_state" where
  "hevc_create_decoder L s =
    (let (dec, s1) = malloc (sizeof_HevcDecoder L) s in
     if dec = 0 then Inr (0, s1)
     else case de265_new_decoder L of
       None \<Rightarrow> and_then (free dec s1) (\<lambda>s2. Inr (0, s2))
     | Some ctx \<Rightarrow>
         Inr (dec, s1\<lparr>blocks := (blocks s1)(dec \<mapsto>
           Dec \<lparr>hevc_ctx = Some (de265_start_worker_threads L ctx 0)\<rparr>)\<rparr>))"

definition hevc_configure ::
  "'c de265 \<Rightarrow> int32 \<Rightarrow> cbytes option \<Rightarrow> int32 \<Rightarrow> 'c hevc_state \<Rightarrow> fault + 'c hevc_state" where
  "hevc_configure L handle config sz s =
    (if handle = 0 then Inr s
     else case blocks s handle of
       Some (Dec dec) \<Rightarrow>
         if hevc_ctx dec = None \<or> config = None \<or> sz \<le>s 0 then Inr s
         else
           let ctx1 = de265_push_NAL L (the (hevc_ctx dec)) (the config) sz;
               ctx2 = de265_decode L ctx1
           in Inr (s\<lparr>blocks := (blocks s)(handle \<mapsto> Dec (dec\<lparr>hevc_ctx := Some ctx2\<rparr>))\<rparr>)
     | _ \<Rightarrow> Inl InvalidPointer)"

definition hevc_decode ::
  "'c de265 \<Rightarrow> int32 \<Rightarrow> cbytes option \<Rightarrow> int32 \<Rightarrow> int32 \<Rightarrow> 'c hevc_state
    \<Rightarrow> fault + int32 \<times> 'c hevc_state" where
  "hevc_decode L handle data_ptr sz is_keyframe s =
    (if handle = 0 then Inr (0, s)
     else case blocks s handle of
       Some (Dec dec) \<Rightarrow>
         if hevc_ctx dec = None \<or> data_ptr = None \<or> sz \<le>s 0 then Inr (0, s)
         else
           let ctx1 = de265_push_NAL L (the (hevc_ctx dec)) (the data_ptr) sz;
               ctx2 = de265_decode L ctx1;
               (img, ctx3) = de265_get_next_picture L ctx2
           in
           if img = None then
             Inr (0, s\<lparr>blocks := (blocks s)(handle \<mapsto> Dec (dec\<lparr>hevc_ctx := Some ctx3\<rparr>))\<rparr>)
           else
             and_then (hevc_extract_picture (de265_memory L ctx3) img s) (\<lambda>(frame, s2).
               Inr (frame, s2\<lparr>blocks := (blocks s2)(handle \<mapsto>
                 Dec (dec\<lparr>hevc_ctx := Some (de265_release_next_picture L ctx3)\<rparr>))\<rparr>))
     | _ \<Rightarrow> Inl InvalidPointer)"

definition hevc_flush :: "'c de265 \<Rightarrow> int32 \<Rightarrow> 'c hevc_state \<Rightarrow> fault + int32 \<times> 'c hevc_state" where
  "hevc_flush L handle s =
    (if handle = 0 then Inr (0, s)
     else case blocks s handle of
       Some (Dec dec) \<Rightarrow>
         if hevc_ctx dec = None then Inr (0, s)
         else
           let ctx1 = de265_flush_data L (the (hevc_ctx dec));
               ctx2 = de265_decode L ctx1;
               (img, ctx3) = de265_get_next_picture L ctx2
           in
           if img = None then
             Inr (0, s\<lparr>blocks := (blocks s)(handle \<mapsto> Dec (dec\<lparr>hevc_ctx := Some ctx3\<rparr>))\<rparr>)
           else
             and_then (hevc_extract_picture (de265_memory L ctx3) img s) (\<lambda>(frame, s2).
               Inr (frame, s2\<lparr>blocks := (blocks s2)(handle \<mapsto>
                 Dec (dec\<lparr>hevc_ctx := Some (de265_release_next_picture L ctx3)\<rparr>))\<rparr>))
     | _ \<Rightarrow> Inl InvalidPointer)"

text \<open>\<open>de265_free_decoder\<close> ends the context, as above.\<close>

definition hevc_destroy :: "int32 \<Rightarrow> 'c hevc_state \<Rightarrow> fault + 'c hevc_state" where
  "hevc_destroy handle s =
    (if handle = 0 then Inr s
     else case blocks s handle of
       Some (Dec dec) \<Rightarrow> free handle s
     | _ \<Rightarrow> Inl InvalidPointer)"

subsection \<open>VP9\<close>

record 'c Vp9Decoder =
  codec :: 'c
  initialized :: int32

record 'c vpx =
  vpx_codec_dec_init :: "int32 \<Rightarrow> int32 \<times> 'c"
  vpx_codec_decode :: "'c \<Rightarrow> cbytes option \<Rightarrow> int32 \<Rightarrow> int32 \<times> 'c"
  vpx_codec_get_frame :: "'c \<Rightarrow> vpx_image option \<times> 'c"
  vpx_memory :: "'c \<Rightarrow> memory"
  VPX_CODEC_OK :: int32
  vpx_img_fmt :: vpx_img_fmt_consts
  sizeof_Vp9Decoder :: int32

type_synonym 'c vp9_state = "'c Vp9Decoder heap"

definition vp9_create_decoder :: "'c vpx \<Rightarrow> 'c vp9_state \<Rightarrow> fault + int32 \<times> 'c vp9_state" where
  "vp9_create_decoder L s =
    (let (dec, s1) = malloc (sizeof_Vp9Decoder L) s in
     if dec = 0 then Inr (0, s1)
     else
       let (ret, c) = vpx_codec_dec_init L 1 in
       if ret \<noteq> VPX_CODEC_OK L then and_then (free dec s1) (\<lambda>s2. Inr (0, s2))
       else Inr (dec, s1\<lparr>blocks := (blocks s1)(dec \<mapsto>
              Dec \<lparr>codec = c, initialized = 1\<rparr>)\<rparr>))"

definition vp9_configure :: "int32 \<Rightarrow> cbytes option \<Rightarrow> int32 \<Rightarrow> 'c vp9_state \<Rightarrow> 'c vp9_state" where
  "vp9_configure handle config sz s = s"

definition vp9_decode ::
  "'c vpx \<Rightarrow> int32 \<Rightarrow> cbytes option \<Rightarrow> int32 \<Rightarrow> int32 \<Rightarrow> 'c vp9_state
    \<Rightarrow> fault + int32 \<times> 'c vp9_state" where
  "vp9_decode L handle data_ptr sz is_keyframe s =
    (if handle = 0 then Inr (0, s)
     else case blocks s handle of
       Some (Dec dec) \<Rightarrow>
         if initialized dec = 0 \<or> data_ptr = None \<or> sz \<le>s 0 then Inr (0, s)
         else
           let (ret, c1) = vpx_codec_decode L (codec dec) data_ptr sz;
               s1 = s\<lparr>blocks := (blocks s)(handle \<mapsto> Dec (dec\<lparr>codec := c1\<rparr>))\<rparr>
           in
           if ret \<noteq> VPX_CODEC_OK L then Inr (0, s1)
           else
             let (img, c2) = vpx_codec_get_frame L c1;
                 s2 = s\<lparr>blocks := (blocks s)(handle \<mapsto> Dec (dec\<lparr>codec := c2\<rparr>))\<rparr>
             in
             if img = None then Inr (0, s2)
             else vp9_extract_image (vpx_img_fmt L) (vpx_memory L c2) img s2
     | _ \<Rightarrow> Inl InvalidPointer)"

definition vp9_flush :: "'c vpx \<Rightarrow> int32 \<Rightarrow> 'c vp9_state \<Rightarrow> fault + int32 \<times> 'c vp9_state" where
  "vp9_flush L handle s =
    (if handle = 0 then Inr (0, s)
     else case blocks s handle of
       Some (Dec dec) \<Rightarrow>
         if initialized dec = 0 then Inr (0, s)
         else
           let (ret, c1) = vpx_codec_decode L (codec dec) None 0;
               (img, c2) = vpx_codec_get_frame L c1;
               s2 = s\<lparr>blocks := (blocks s)(handle \<mapsto> Dec (dec\<lparr>codec := c2\<rparr>))\<rparr>
           in
           if img = None then Inr (0, s2)
           else vp9_extract_image (vpx_img_fmt L) (vpx_memory L c2) img s2
     | _ \<Rightarrow> Inl InvalidPointer)"

text \<open>\<open>vpx_codec_destroy\<close> ends the codec, as above.\<close>

definition vp9_destroy :: "int32 \<Rightarrow> 'c vp9_state \<Rightarrow> fault + 'c vp9_state" where
  "vp9_destroy handle s =
    (if handle = 0 then Inr s
     else case blocks s handle of
       Some (Dec dec) \<Rightarrow> free handle s
     | _ \<Rightarrow> Inl InvalidPointer)"

subsection \<open>A host that issues a sequence of decode calls\<close>

text \<open>Each call is the data pointer, the length and the keyframe hint; the tokens
  returned are collected in order.\<close>

type_synonym decode_call = "cbytes option \<times> int32 \<times> int32"

fun av1_decode_calls ::
  "'c dav1d \<Rightarrow> int32 \<Rightarrow> decode_call list \<Rightarrow> 'c av1_state
    \<Rightarrow> (fault + int32 list \<times> 'c av1_state) option" where
  "av1_decode_calls L handle [] s = Some (Inr ([], s))"
| "av1_decode_calls L handle ((data_ptr, sz, is_keyframe) # calls) s =
    (case av1_decode L handle data_ptr sz is_keyframe s of
       None \<Rightarrow> None
     | Some (Inl e) \<Rightarrow> Some (Inl e)
     | Some (Inr (tok, s1)) \<Rightarrow>
         (case av1_decode_calls L handle calls s1 of
            None \<Rightarrow> None
          | Some (Inl e) \<Rightarrow> Some (Inl e)
          | Some (Inr (toks, s2)) \<Rightarrow> Some (Inr (tok # toks, s2))))"

fun vp9_decode_calls ::
  "'c vpx \<Rightarrow> int32 \<Rightarrow> decode_call list \<Rightarrow> 'c vp9_state \<Rightarrow> fault + int32 list \<times> 'c vp9_state" where
  "vp9_decode_calls L handle [] s = Inr ([], s)"
| "vp9_decode_calls L handle ((data_ptr, sz, is_keyframe) # calls) s =
    and_then (vp9_decode L handle data_ptr sz is_keyframe s) (\<lambda>(tok, s1).
    and_then (vp9_decode_calls L handle calls s1) (\<lambda>(toks, s2). Inr (tok # toks, s2)))"

section \<open>The common shape of the three extractors\<close>

text \<open>
  From the four allocations on, the three extractors are the same text up to the names of
  the picture's fields. \<open>copy_out\<close> is that text, with what they read from the picture
  as parameters; each extractor is shown equal to an instance of it below.
\<close>

definition copy_out ::
  "memory \<Rightarrow> DecodedFrame \<Rightarrow> nat \<Rightarrow> int32 \<Rightarrow> addr \<Rightarrow> int32 \<Rightarrow>
   nat \<Rightarrow> int32 \<Rightarrow> addr \<Rightarrow> int32 \<Rightarrow> addr \<Rightarrow> int32 \<Rightarrow> 'd heap \<Rightarrow> fault + addr \<times> 'd heap" where
  "copy_out m hdr nY yRowBytes ySrc yStride nUV uvRowBytes uSrc uStride vSrc vStride s =
    (let (yOut, s1) = malloc (ySize hdr) s;
         (uOut, s2) = malloc (uvSize hdr) s1;
         (vOut, s3) = malloc (uvSize hdr) s2;
         (frame, s4) = malloc 36 s3
     in
       if yOut = 0 \<or> uOut = 0 \<or> vOut = 0 \<or> frame = 0 then
         and_then (free yOut s4) (\<lambda>s5.
         and_then (free uOut s5) (\<lambda>s6.
         and_then (free vOut s6) (\<lambda>s7.
         and_then (free frame s7) (\<lambda>s8. Inr (0, s8)))))
       else
         and_then (for_rows [0..<nY]
             (\<lambda>row. memcpy yOut (row * yRowBytes) m (ySrc + row * yStride) yRowBytes) s4)
           (\<lambda>s5.
         and_then (for_rows [0..<nUV]
             (\<lambda>row t.
                and_then (memcpy uOut (row * uvRowBytes) m (uSrc + row * uStride) uvRowBytes t)
                  (memcpy vOut (row * uvRowBytes) m (vSrc + row * vStride) uvRowBytes)) s5)
           (\<lambda>s6.
         Inr (frame, s6\<lparr>blocks := (blocks s6)(frame \<mapsto> Frame
           (hdr\<lparr>yPtr := yOut, uPtr := uOut, vPtr := vOut\<rparr>))\<rparr>))))"

text \<open>The heap once the block at \<open>p\<close> is gone: what \<open>free\<close> leaves where it is defined.\<close>

definition released :: "addr \<Rightarrow> 'd heap \<Rightarrow> 'd heap" where
  "released p t = (if p = 0 then t else t\<lparr>blocks := (blocks t)(p := None)\<rparr>)"

section \<open>Notions used to state the properties\<close>

text \<open>Row \<open>r\<close> of a source plane read at its stride, and the plane packed row after row.\<close>

definition source_row :: "memory \<Rightarrow> addr \<Rightarrow> int32 \<Rightarrow> nat \<Rightarrow> nat \<Rightarrow> byte list" where
  "source_row m src stride rb r = read_bytes m (src + of_nat r * stride) rb"

definition packed_plane :: "memory \<Rightarrow> addr \<Rightarrow> int32 \<Rightarrow> nat \<Rightarrow> nat \<Rightarrow> byte list" where
  "packed_plane m src stride rb n = concat (map (source_row m src stride rb) [0..<n])"

text \<open>The next \<open>k\<close> requests to the allocator all succeed: it has \<open>k\<close> answers left,
  none of them 0, all different and none of them a live block.\<close>

definition allocs_succeed :: "nat \<Rightarrow> 'd heap \<Rightarrow> bool" where
  "allocs_succeed k s \<longleftrightarrow>
     k \<le> length (answers s) \<and> distinct (take k (answers s)) \<and>
     list_all (\<lambda>a. a \<noteq> 0 \<and> blocks s a = None) (take k (answers s))"

text \<open>The specification's \<open>ceil(n/2)\<close> and its chroma plane dimensions for the chroma
  formats 420, 422 and 444.\<close>

definition ceil_half :: "int \<Rightarrow> int" where
  "ceil_half n = \<lceil>real_of_int n / 2\<rceil>"

definition spec_chroma_dims :: "int \<Rightarrow> int \<Rightarrow> int \<Rightarrow> int \<times> int" where
  "spec_chroma_dims chroma_format w h =
    (if chroma_format = 420 then (ceil_half w, ceil_half h)
     else if chroma_format = 422 then (ceil_half w, h)
     else (w, h))"

text \<open>The wrappers' bytes per sample for a bit depth.\<close>

definition bytes_per_sample :: "int32 \<Rightarrow> int32" where
  "bytes_per_sample bpc = (if 8 <s bpc then 2 else 1)"

text \<open>Positive luma dimensions whose plane size in bytes stays below \<open>INT_MAX\<close>, so
  that none of the wrappers' \<open>int\<close> computations overflows.\<close>

definition geometry_ok :: "int32 \<Rightarrow> int32 \<Rightarrow> int32 \<Rightarrow> bool" where
  "geometry_ok w h bpc \<longleftrightarrow>
     0 < sint w \<and> 0 < sint h \<and> sint w * sint h * sint (bytes_per_sample bpc) < 2 ^ 31 - 1"

text \<open>The bytes of a row of \<open>w\<close> samples: width times bytes per sample, as a number.\<close>

definition row_bytes :: "int32 \<Rightarrow> int32 \<Rightarrow> nat" where
  "row_bytes w bpc = nat (sint w * sint (bytes_per_sample bpc))"

text \<open>
  A buffer is the tightly packed copy of \<open>n\<close> rows of \<open>rb\<close> bytes of a source plane: it
  holds \<open>n * rb\<close> bytes, and its row \<open>r\<close>, at offset \<open>r * rb\<close>, is the first \<open>rb\<close>
  bytes of source row \<open>r\<close>.
\<close>

definition tightly_packed :: "byte list \<Rightarrow> memory \<Rightarrow> addr \<Rightarrow> int32 \<Rightarrow> nat \<Rightarrow> nat \<Rightarrow> bool" where
  "tightly_packed buf m src stride rb n \<longleftrightarrow>
     length buf = n * rb \<and>
     list_all (\<lambda>r. take rb (drop (r * rb) buf) = source_row m src stride rb r) [0..<n]"

definition plane_copied ::
  "'d heap \<Rightarrow> addr \<Rightarrow> memory \<Rightarrow> addr \<Rightarrow> int32 \<Rightarrow> nat \<Rightarrow> nat \<Rightarrow> bool" where
  "plane_copied s p m src stride rb n \<longleftrightarrow>
     (case blocks s p of
        Some (Bytes buf) \<Rightarrow> tightly_packed buf m src stride rb n
      | _ \<Rightarrow> False)"

text \<open>A token names a complete record: a live frame struct whose three plane pointers
  name live buffers of the sizes the record states.\<close>

definition plane_live :: "'d heap \<Rightarrow> addr \<Rightarrow> int32 \<Rightarrow> bool" where
  "plane_live s p n \<longleftrightarrow>
     (case blocks s p of Some (Bytes buf) \<Rightarrow> p \<noteq> 0 \<and> length buf = unat n | _ \<Rightarrow> False)"

definition record_complete :: "'d heap \<Rightarrow> addr \<Rightarrow> bool" where
  "record_complete s tok \<longleftrightarrow>
     (case blocks s tok of
        Some (Frame f) \<Rightarrow>
          plane_live s (yPtr f) (ySize f) \<and> plane_live s (uPtr f) (uvSize f)
          \<and> plane_live s (vPtr f) (uvSize f)
      | _ \<Rightarrow> False)"

text \<open>The fields each extractor stores in the record, the plane pointers apart
  (which are the three addresses \<open>malloc\<close> returned).\<close>

definition av1_frame_header :: "Dav1dPicture \<Rightarrow> DecodedFrame" where
  "av1_frame_header pic =
    (let cd = av1_chroma_dims (p_w pic) (p_h pic) (p_layout pic) in
     \<lparr>width = p_w pic, height = p_h pic,
      chromaFormat = layout_to_format (p_layout pic), bitDepth = p_bpc pic,
      yPtr = 0, uPtr = 0, vPtr = 0,
      ySize = p_w pic * p_h pic * bytes_per_sample (p_bpc pic),
      uvSize = fst cd * snd cd * bytes_per_sample (p_bpc pic)\<rparr>)"

definition hevc_frame_header :: "de265_image \<Rightarrow> DecodedFrame" where
  "hevc_frame_header img =
    (let w = de265_get_image_width img 0; h = de265_get_image_height img 0;
         bpp = de265_get_bits_per_pixel img 0;
         cd = hevc_chroma_dims w h (de265_get_chroma_format img)
     in
     \<lparr>width = w, height = h,
      chromaFormat = chroma_to_format (de265_get_chroma_format img), bitDepth = bpp,
      yPtr = 0, uPtr = 0, vPtr = 0,
      ySize = w * h * bytes_per_sample bpp,
      uvSize = fst cd * snd cd * bytes_per_sample bpp\<rparr>)"

definition vp9_frame_header :: "vpx_img_fmt_consts \<Rightarrow> vpx_image \<Rightarrow> DecodedFrame" where
  "vp9_frame_header K img =
    (let bpc = vpx_fmt_bpc K (fmt img);
         cd = vp9_chroma_dims (d_w img) (d_h img) (vpx_fmt_to_chroma K (fmt img))
     in
     \<lparr>width = d_w img, height = d_h img,
      chromaFormat = vpx_fmt_to_chroma K (fmt img), bitDepth = bpc,
      yPtr = 0, uPtr = 0, vPtr = 0,
      ySize = d_w img * d_h img * bytes_per_sample bpc,
      uvSize = fst cd * snd cd * bytes_per_sample bpc\<rparr>)"

section \<open>Sample inputs\<close>

text \<open>A memory whose byte at an address is the low byte of the address, a heap with no
  live block whose allocator has six addresses to give, and small pictures.\<close>

definition sample_memory :: memory where
  "sample_memory a = ucast a"

definition sample_heap :: "'d heap" where
  "sample_heap =
    \<lparr>blocks = (\<lambda>a. None), answers = [4096, 8192, 12288, 16384, 20480, 24576],
     uninit = (\<lambda>i. 170)\<rparr>"

definition sample_picture :: Dav1dPicture where
  "sample_picture =
    \<lparr>p_w = 3, p_h = 2, p_layout = DAV1D_PIXEL_LAYOUT_I420, p_bpc = 8,
     pic_data = (\<lambda>i. if i = 0 then 256 else if i = 1 then 544 else 832),
     pic_stride = (\<lambda>i. if i = 0 then 16 else 8)\<rparr>"

text \<open>A monochrome picture as dav1d allocates it: no chroma planes, chroma stride 0.\<close>

definition mono_picture :: Dav1dPicture where
  "mono_picture =
    \<lparr>p_w = 2, p_h = 2, p_layout = DAV1D_PIXEL_LAYOUT_I400, p_bpc = 8,
     pic_data = (\<lambda>i. if i = 0 then 256 else 0),
     pic_stride = (\<lambda>i. if i = 0 then 16 else 0)\<rparr>"

text \<open>A 12-bit picture.\<close>

definition deep_picture :: Dav1dPicture where
  "deep_picture = sample_picture\<lparr>p_bpc := 12\<rparr>"

definition sample_de265_image :: de265_image where
  "sample_de265_image =
    \<lparr>de265_get_image_width = (\<lambda>c. if c = 0 then 3 else 2),
     de265_get_image_height = (\<lambda>c. if c = 0 then 2 else 1),
     de265_get_bits_per_pixel = (\<lambda>c. 8),
     de265_get_chroma_format = de265_chroma_420,
     de265_get_image_plane =
       (\<lambda>c. if c = 0 then (256, 16) else if c = 1 then (544, 8) else (832, 8))\<rparr>"

text \<open>The values of libvpx's \<open>vpx_image.h\<close> for the constants the wrapper names.\<close>

definition libvpx_img_fmt :: vpx_img_fmt_consts where
  "libvpx_img_fmt =
    \<lparr>VPX_IMG_FMT_I444 = 0x106, VPX_IMG_FMT_I44416 = 0x906,
     VPX_IMG_FMT_I422 = 0x105, VPX_IMG_FMT_I42216 = 0x905,
     VPX_IMG_FMT_HIGHBITDEPTH = 0x800\<rparr>"

text \<open>A 12-bit 4:2:0 image: libvpx gives it the format of every high-bit-depth 4:2:0
  image, the planar 4:2:0 code with the high-bit-depth flag.\<close>

definition sample_vpx_image :: vpx_image where
  "sample_vpx_image =
    \<lparr>fmt = 0x902, d_w = 3, d_h = 2,
     planes = (\<lambda>i. if i = 0 then 256 else if i = 1 then 544 else 832),
     img_stride = (\<lambda>i. if i = 0 then 16 else 8)\<rparr>"

text \<open>
  Stand-ins for the three libraries, over a context that counts the chunks taken in:
  a picture is ready once a chunk has been fed. Sessions of them, live at address 4096
  as \<open>create_decoder\<close> leaves them on the sample heap, and the HEVC heap after that
  session has been destroyed.
\<close>

definition sample_dav1d :: "nat dav1d" where
  "sample_dav1d =
    \<lparr>dav1d_default_settings = \<lparr>n_threads = 0, max_frame_delay = 0\<rparr>,
     dav1d_open = (\<lambda>st. (0, Some 0)),
     dav1d_send_data = (\<lambda>c d. (0, c + 1, [])),
     dav1d_get_picture = (\<lambda>c. (if c = 0 then - 6 else 0, c, sample_picture)),
     dav1d_picture_unref = (\<lambda>c p. c),
     dav1d_flush = (\<lambda>c. c),
     dav1d_memory = (\<lambda>c. sample_memory),
     DAV1D_ERR_EAGAIN = - 6,
     sizeof_Av1Decoder = 64\<rparr>"

definition sample_de265 :: "nat de265" where
  "sample_de265 =
    \<lparr>de265_new_decoder = Some 0,
     de265_start_worker_threads = (\<lambda>c n. c),
     de265_push_NAL = (\<lambda>c d n. c + 1),
     de265_decode = (\<lambda>c. c),
     de265_get_next_picture = (\<lambda>c. (if c = 0 then None else Some sample_de265_image, c)),
     de265_release_next_picture = (\<lambda>c. c),
     de265_flush_data = (\<lambda>c. c),
     de265_memory = (\<lambda>c. sample_memory),
     sizeof_HevcDecoder = 4\<rparr>"

definition sample_vpx :: "nat vpx" where
  "sample_vpx =
    \<lparr>vpx_codec_dec_init = (\<lambda>threads. (0, 0)),
     vpx_codec_decode = (\<lambda>c d n. (0, c + 1)),
     vpx_codec_get_frame = (\<lambda>c. (if c = 0 then None else Some sample_vpx_image, c)),
     vpx_memory = (\<lambda>c. sample_memory),
     VPX_CODEC_OK = 0,
     vpx_img_fmt = libvpx_img_fmt,
     sizeof_Vp9Decoder = 64\<rparr>"

definition sample_av1_session :: "nat av1_state" where
  "sample_av1_session =
    \<lparr>blocks = (\<lambda>a. if a = 4096
        then Some (Dec \<lparr>av1_ctx = Some 0,
                        av1_settings = \<lparr>n_threads = 1, max_frame_delay = 1\<rparr>\<rparr>)
        else None),
     answers = [8192, 12288, 16384, 20480, 24576],
     uninit = (\<lambda>i. 170)\<rparr>"

definition sample_hevc_session :: "nat hevc_state" where
  "sample_hevc_session =
    \<lparr>blocks = (\<lambda>a. if a = 4096 then Some (Dec \<lparr>hevc_ctx = Some 0\<rparr>) else None),
     answers = [8192, 12288, 16384, 20480, 24576],
     uninit = (\<lambda>i. 170)\<rparr>"

definition sample_hevc_destroyed :: "nat hevc_state" where
  "sample_hevc_destroyed =
    \<lparr>blocks = (\<lambda>a. None),
     answers = [8192, 12288, 16384, 20480, 24576],
     uninit = (\<lambda>i. 170)\<rparr>"

definition sample_vp9_session :: "nat vp9_state" where
  "sample_vp9_session =
    \<lparr>blocks = (\<lambda>a. if a = 4096 then Some (Dec \<lparr>codec = 0, initialized = 1\<rparr>) else None),
     answers = [8192, 12288, 16384, 20480, 24576],
     uninit = (\<lambda>i. 170)\<rparr>"

text \<open>A chunk of compressed data: byte \<open>i\<close> is \<open>i\<close>.\<close>

definition sample_chunk :: cbytes where
  "sample_chunk i = of_nat i"

section \<open>Arithmetic of the 32-bit integers\<close>

lemma sint_small:
  "- (2 ^ 31) \<le> k \<Longrightarrow> k < 2 ^ 31 \<Longrightarrow> sint (word_of_int k :: int32) = k"
  by (simp add: sint_sbintrunc' signed_take_bit_int_eq_self)

lemma unat_small:
  "0 \<le> k \<Longrightarrow> k < 2 ^ 32 \<Longrightarrow> unat (word_of_int k :: int32) = nat k"
proof -
  assume a: "0 \<le> k" "k < 2 ^ 32"
  have "uint (word_of_int k :: int32) = k mod 2 ^ 32" by (simp add: uint_word_of_int)
  also have "\<dots> = k" using a by simp
  finally have u: "uint (word_of_int k :: int32) = k" .
  show ?thesis by (simp only: unat_eq_nat_uint u)
qed

lemma unat_nonneg: "0 \<le> sint (w::int32) \<Longrightarrow> unat w = nat (sint w)"
proof -
  assume a: "0 \<le> sint w"
  have "sint w < 2 ^ 32" using sint_lt [of w] by simp
  with a have "unat (word_of_int (sint w) :: int32) = nat (sint w)" by (rule unat_small)
  then show ?thesis by simp
qed

lemma sint_add1: "sint (w::int32) < 2 ^ 31 - 1 \<Longrightarrow> sint (w + 1) = sint w + 1"
proof -
  assume a: "sint w < 2 ^ 31 - 1"
  have lo: "- (2 ^ 31) \<le> sint w" using sint_ge [of w] by simp
  have "w + 1 = word_of_int (sint w + 1)" by simp
  then show ?thesis using sint_small [of "sint w + 1"] a lo by simp
qed

lemma sint_mult3:
  assumes "0 \<le> sint (x::int32)" "0 \<le> sint (y::int32)" "0 \<le> sint (z::int32)"
    and "sint x * sint y * sint z < 2 ^ 31"
  shows "sint (x * y * z) = sint x * sint y * sint z"
    and "unat (x * y * z) = nat (sint x * sint y * sint z)"
proof -
  have e: "x * y * z = word_of_int (sint x * sint y * sint z)" by simp
  have nn: "0 \<le> sint x * sint y * sint z" using assms by simp
  show "sint (x * y * z) = sint x * sint y * sint z"
    unfolding e using nn assms(4) by (intro sint_small) simp_all
  show "unat (x * y * z) = nat (sint x * sint y * sint z)"
    unfolding e using nn assms(4) by (intro unat_small) simp_all
qed

lemma sint_mult2:
  assumes "0 \<le> sint (x::int32)" "0 \<le> sint (z::int32)" and "sint x * sint z < 2 ^ 31"
  shows "sint (x * z) = sint x * sint z" and "unat (x * z) = nat (sint x * sint z)"
  using sint_mult3 [of x 1 z] assms by simp_all

lemma plane_size:
  assumes x: "0 \<le> sint (x::int32)" and y: "0 < sint (y::int32)" and z: "0 < sint (z::int32)"
    and fit: "sint x * sint y * sint z < 2 ^ 31"
  shows "unat (x * y * z) = nat (sint y) * unat (x * z)"
proof -
  have "sint x * sint z * 1 \<le> sint x * sint z * sint y"
    using x y z by (intro mult_left_mono) simp_all
  then have "sint x * sint z \<le> sint x * sint y * sint z" by (simp add: mult_ac)
  with fit have "sint x * sint z < 2 ^ 31" by linarith
  then have a: "unat (x * z) = nat (sint x * sint z)" using x z by (simp add: sint_mult2)
  have b: "unat (x * y * z) = nat (sint x * sint y * sint z)"
    using x y z fit by (simp add: sint_mult3)
  show ?thesis unfolding a b using x y z by (simp add: nat_mult_distrib mult_ac)
qed

lemma ceil_half_div: "ceil_half n = (n + 1) div 2"
  unfolding ceil_half_def by linarith

lemma c_div_half:
  assumes "0 \<le> sint (w::int32)" and "sint w < 2 ^ 31 - 1"
  shows "sint (c_div (w + 1) 2) = ceil_half (sint w)"
proof -
  have s: "sint (w + 1) = sint w + 1" using assms by (simp add: sint_add1)
  have d: "(sint w + 1) sdiv 2 = (sint w + 1) div 2"
    using assms by (simp add: signed_divide_int_def sgn_if)
  have "0 \<le> (sint w + 1) div 2" "(sint w + 1) div 2 < 2 ^ 31" using assms by simp_all
  then show ?thesis unfolding c_div_def s by (simp add: d sint_small ceil_half_div)
qed

lemma ceil_half_bounds: "0 < n \<Longrightarrow> 0 < ceil_half n \<and> ceil_half n \<le> n"
  unfolding ceil_half_div by linarith

section \<open>Allocation, copying and the common shape\<close>

lemma and_then_Inr [simp]: "and_then (Inr x) k = k x"
  by (simp add: and_then_def)

lemma and_then_Inl [simp]: "and_then (Inl e) k = Inl e"
  by (simp add: and_then_def)

lemma for_rows_append:
  "for_rows (xs @ ys) body s = and_then (for_rows xs body s) (for_rows ys body)"
proof (induction xs arbitrary: s)
  case Nil
  show ?case by simp
next
  case (Cons r rs)
  show ?case by (cases "body (word_of_nat r) s") (simp_all add: Cons.IH)
qed

lemma for_rows_snoc:
  "for_rows (xs @ [r]) body s = and_then (for_rows xs body s) (body (word_of_nat r))"
proof -
  have "for_rows [r] body = body (word_of_nat r)"
  proof
    fix t show "for_rows [r] body t = body (word_of_nat r) t"
      by (cases "body (word_of_nat r) t") simp_all
  qed
  then show ?thesis by (simp add: for_rows_append)
qed

lemma length_source_row [simp]: "length (source_row m src stride rb r) = rb"
  by (simp add: source_row_def read_bytes_def)

lemma length_packed_plane [simp]: "length (packed_plane m src stride rb n) = n * rb"
  by (induction n) (simp_all add: packed_plane_def)

lemma packed_plane_Suc:
  "packed_plane m src stride rb (Suc n) = packed_plane m src stride rb n @ source_row m src stride rb n"
  by (simp add: packed_plane_def)

lemma packed_plane_row:
  "r < n \<Longrightarrow> take rb (drop (r * rb) (packed_plane m src stride rb n)) = source_row m src stride rb r"
proof (induction n)
  case 0
  then show ?case by simp
next
  case (Suc n)
  show ?case
  proof (cases "r < n")
    case True
    then have "r * rb + rb \<le> n * rb"
      by (metis Suc_leI mult_Suc mult_le_mono1 add.commute)
    with True Suc.IH show ?thesis
      by (simp add: packed_plane_Suc)
  next
    case False
    with Suc.prems have "r = n" by simp
    then show ?thesis by (simp add: packed_plane_Suc)
  qed
qed

lemma row_offset:
  assumes "n * unat (rb::int32) < 2 ^ 32" and "k < n"
  shows "unat (word_of_nat k * rb) = k * unat rb"
proof (cases "rb = 0")
  case True
  then show ?thesis by simp
next
  case False
  then have pos: "0 < unat rb" by (simp add: unat_gt_0)
  have "k * unat rb \<le> n * unat rb" using assms(2) by simp
  then have kb: "k * unat rb < 2 ^ 32" using assms(1) by linarith
  have "k \<le> k * unat rb" using pos by simp
  with kb have "k < 2 ^ 32" by linarith
  then have "unat (word_of_nat k :: int32) = k" by (simp add: unat_of_nat)
  with kb show ?thesis using unat_mult_lem [of "word_of_nat k :: int32" rb] by simp
qed

lemma memcpy_live:
  assumes "blocks s dst = Some (Bytes blk)" and "unat off + unat n \<le> length blk"
  shows "memcpy dst off m src n s =
    Inr (s\<lparr>blocks := (blocks s)(dst \<mapsto>
      Bytes (take (unat off) blk @ read_bytes m src (unat n) @ drop (unat off + unat n) blk))\<rparr>)"
  using assms by (simp add: memcpy_def)

lemma copy_rows_one:
  assumes blk: "blocks s dst = Some (Bytes blk)"
    and len: "length blk = n * unat rb"
    and fit: "n * unat rb < 2 ^ 32"
    and k: "k \<le> n"
  shows "for_rows [0..<k] (\<lambda>row. memcpy dst (row * rb) m (src + row * stride) rb) s =
    Inr (s\<lparr>blocks := (blocks s)(dst \<mapsto>
      Bytes (packed_plane m src stride (unat rb) k @ drop (k * unat rb) blk))\<rparr>)"
  using k
proof (induction k)
  case 0
  have "(blocks s)(dst \<mapsto> Bytes blk) = blocks s" using blk by (simp add: fun_upd_idem)
  then show ?case by (simp add: packed_plane_def)
next
  case (Suc k)
  define body where "body = (\<lambda>row. memcpy dst (row * rb) m (src + row * stride) rb :: 'a heap \<Rightarrow> fault + 'a heap)"
  define mid where "mid = packed_plane m src stride (unat rb) k @ drop (k * unat rb) blk"
  define s1 where "s1 = s\<lparr>blocks := (blocks s)(dst \<mapsto> Bytes mid)\<rparr>"
  from Suc.prems have kn: "k < n" by simp
  have off: "unat (word_of_nat k * rb) = k * unat rb" using row_offset [OF fit kn] .
  have "k * unat rb + unat rb \<le> n * unat rb"
    using kn by (metis Suc_leI mult_Suc mult_le_mono1 add.commute)
  then have inb: "k * unat rb + unat rb \<le> length blk" using len by simp
  have lmid: "length mid = length blk" using inb by (simp add: mid_def)
  have ih: "for_rows [0..<k] body s = Inr s1"
    unfolding body_def s1_def mid_def by (rule Suc.IH) (use kn in simp)
  have live: "blocks s1 dst = Some (Bytes mid)" by (simp add: s1_def)
  have "for_rows [0..<Suc k] body s = body (word_of_nat k) s1"
    by (simp add: for_rows_snoc ih)
  also have "\<dots> = Inr (s1\<lparr>blocks := (blocks s1)(dst \<mapsto>
      Bytes (take (k * unat rb) mid @ read_bytes m (src + word_of_nat k * stride) (unat rb)
             @ drop (k * unat rb + unat rb) mid))\<rparr>)"
    unfolding body_def using memcpy_live [OF live, of "word_of_nat k * rb" rb m "src + word_of_nat k * stride"]
      inb lmid by (simp add: off)
  also have "\<dots> = Inr (s\<lparr>blocks := (blocks s)(dst \<mapsto>
      Bytes (packed_plane m src stride (unat rb) (Suc k) @ drop (Suc k * unat rb) blk))\<rparr>)"
    by (simp add: s1_def mid_def packed_plane_Suc source_row_def add.commute [of "unat rb"])
  finally show ?case unfolding body_def .
qed

lemma av1_extract_form:
  "av1_extract_picture m (Some pic) s =
    (if pic_data pic 0 = 0 then Inr (0, s)
     else
       copy_out m (av1_frame_header pic)
         (nat (sint (p_h pic))) (p_w pic * bytes_per_sample (p_bpc pic))
         (pic_data pic 0) (pic_stride pic 0)
         (nat (sint (snd (av1_chroma_dims (p_w pic) (p_h pic) (p_layout pic)))))
         (fst (av1_chroma_dims (p_w pic) (p_h pic) (p_layout pic)) * bytes_per_sample (p_bpc pic))
         (pic_data pic 1) (pic_stride pic 1)
         (pic_data pic 2) (pic_stride pic 1) s)"
  by (simp add: av1_extract_picture_def copy_out_def av1_frame_header_def
      bytes_per_sample_def Let_def split: prod.splits)

lemma hevc_extract_form:
  "hevc_extract_picture m (Some img) s =
    (if fst (de265_get_image_plane img 0) = 0 \<or> fst (de265_get_image_plane img 1) = 0
        \<or> fst (de265_get_image_plane img 2) = 0 then Inr (0, s)
     else
       copy_out m (hevc_frame_header img)
         (nat (sint (de265_get_image_height img 0)))
         (de265_get_image_width img 0 * bytes_per_sample (de265_get_bits_per_pixel img 0))
         (fst (de265_get_image_plane img 0)) (snd (de265_get_image_plane img 0))
         (nat (sint (snd (hevc_chroma_dims (de265_get_image_width img 0)
                       (de265_get_image_height img 0) (de265_get_chroma_format img)))))
         (fst (hevc_chroma_dims (de265_get_image_width img 0)
                       (de265_get_image_height img 0) (de265_get_chroma_format img))
          * bytes_per_sample (de265_get_bits_per_pixel img 0))
         (fst (de265_get_image_plane img 1)) (snd (de265_get_image_plane img 1))
         (fst (de265_get_image_plane img 2)) (snd (de265_get_image_plane img 2)) s)"
  by (simp add: hevc_extract_picture_def copy_out_def hevc_frame_header_def
      bytes_per_sample_def Let_def split: prod.splits)

lemma vp9_extract_form:
  "vp9_extract_image K m (Some img) s =
     copy_out m (vp9_frame_header K img)
       (unat (d_h img)) (d_w img * bytes_per_sample (vpx_fmt_bpc K (fmt img)))
       (planes img 0) (img_stride img 0)
       (unat (snd (vp9_chroma_dims (d_w img) (d_h img) (vpx_fmt_to_chroma K (fmt img)))))
       (fst (vp9_chroma_dims (d_w img) (d_h img) (vpx_fmt_to_chroma K (fmt img)))
        * bytes_per_sample (vpx_fmt_bpc K (fmt img)))
       (planes img 1) (img_stride img 1)
       (planes img 2) (img_stride img 2) s"
  by (simp add: vp9_extract_image_def copy_out_def vp9_frame_header_def
      bytes_per_sample_def Let_def split: prod.splits)

lemma copy_rows_two:
  assumes ublk: "blocks s u = Some (Bytes bu)" and vblk: "blocks s v = Some (Bytes bv)"
    and ne: "u \<noteq> v"
    and ulen: "length bu = n * unat rb" and vlen: "length bv = n * unat rb"
    and fit: "n * unat rb < 2 ^ 32"
    and k: "k \<le> n"
  shows "for_rows [0..<k]
      (\<lambda>row t. and_then (memcpy u (row * rb) m (usrc + row * ustride) rb t)
                 (memcpy v (row * rb) m (vsrc + row * vstride) rb)) s =
    Inr (s\<lparr>blocks := (blocks s)
      (u \<mapsto> Bytes (packed_plane m usrc ustride (unat rb) k @ drop (k * unat rb) bu),
       v \<mapsto> Bytes (packed_plane m vsrc vstride (unat rb) k @ drop (k * unat rb) bv))\<rparr>)"
  using k
proof (induction k)
  case 0
  have same: "(blocks s)(u \<mapsto> Bytes bu, v \<mapsto> Bytes bv) = blocks s"
    using ublk vblk by (auto simp: fun_eq_iff)
  have "Inr s = (Inr (s\<lparr>blocks := blocks s\<rparr>) :: fault + 'a heap)" by simp
  then show ?case
    by (simp only: upt_0 for_rows.simps packed_plane_def list.map concat.simps append_Nil
        mult_0 drop_0 same)
next
  case (Suc k)
  define body where "body = (\<lambda>row t. and_then (memcpy u (row * rb) m (usrc + row * ustride) rb t)
                 (memcpy v (row * rb) m (vsrc + row * vstride) rb) :: fault + 'a heap)"
  define mu where "mu = packed_plane m usrc ustride (unat rb) k @ drop (k * unat rb) bu"
  define mv where "mv = packed_plane m vsrc vstride (unat rb) k @ drop (k * unat rb) bv"
  define s1 where "s1 = s\<lparr>blocks := (blocks s)(u \<mapsto> Bytes mu, v \<mapsto> Bytes mv)\<rparr>"
  define nu where "nu = take (k * unat rb) mu @ read_bytes m (usrc + word_of_nat k * ustride) (unat rb)
             @ drop (k * unat rb + unat rb) mu"
  define s2 where "s2 = s1\<lparr>blocks := (blocks s1)(u \<mapsto> Bytes nu)\<rparr>"
  from Suc.prems have kn: "k < n" by simp
  have off: "unat (word_of_nat k * rb) = k * unat rb" using row_offset [OF fit kn] .
  have le: "k * unat rb + unat rb \<le> n * unat rb"
    using kn by (metis Suc_leI mult_Suc mult_le_mono1 add.commute)
  have lmu: "length mu = n * unat rb" using le ulen by (simp add: mu_def)
  have lmv: "length mv = n * unat rb" using le vlen by (simp add: mv_def)
  have ih: "for_rows [0..<k] body s = Inr s1"
    unfolding body_def s1_def mu_def mv_def by (rule Suc.IH) (use kn in simp)
  have liveu: "blocks s1 u = Some (Bytes mu)" using ne by (simp add: s1_def)
  have livev: "blocks s2 v = Some (Bytes mv)" using ne by (simp add: s1_def s2_def)
  have stepu: "memcpy u (word_of_nat k * rb) m (usrc + word_of_nat k * ustride) rb s1 = Inr s2"
    using memcpy_live [OF liveu, of "word_of_nat k * rb" rb m "usrc + word_of_nat k * ustride"]
      le lmu by (simp add: off s2_def nu_def)
  have stepv: "memcpy v (word_of_nat k * rb) m (vsrc + word_of_nat k * vstride) rb s2 =
      Inr (s2\<lparr>blocks := (blocks s2)(v \<mapsto>
        Bytes (take (k * unat rb) mv @ read_bytes m (vsrc + word_of_nat k * vstride) (unat rb)
             @ drop (k * unat rb + unat rb) mv))\<rparr>)"
    using memcpy_live [OF livev, of "word_of_nat k * rb" rb m "vsrc + word_of_nat k * vstride"]
      le lmv by (simp add: off)
  have "for_rows [0..<Suc k] body s = body (word_of_nat k) s1"
    by (simp add: for_rows_snoc ih)
  also have "\<dots> = Inr (s2\<lparr>blocks := (blocks s2)(v \<mapsto>
        Bytes (take (k * unat rb) mv @ read_bytes m (vsrc + word_of_nat k * vstride) (unat rb)
             @ drop (k * unat rb + unat rb) mv))\<rparr>)"
    unfolding body_def by (simp add: stepu stepv)
  also have "\<dots> = Inr (s\<lparr>blocks := (blocks s)
      (u \<mapsto> Bytes (packed_plane m usrc ustride (unat rb) (Suc k) @ drop (Suc k * unat rb) bu),
       v \<mapsto> Bytes (packed_plane m vsrc vstride (unat rb) (Suc k) @ drop (Suc k * unat rb) bv))\<rparr>)"
    using ne
    by (simp add: s2_def s1_def nu_def mu_def mv_def packed_plane_Suc source_row_def
        add.commute [of "unat rb"] fun_upd_twist)
  finally show ?case unfolding body_def .
qed

lemma list4_cases:
  obtains "length xs < 4" | a b c d rest where "xs = a # b # c # d # rest"
  by (cases xs; cases "tl xs"; cases "tl (tl xs)"; cases "tl (tl (tl xs))") auto

lemma allocs_succeed_4:
  "allocs_succeed 4 s \<longleftrightarrow>
    (\<exists>a b c d rest. answers s = a # b # c # d # rest \<and> distinct [a, b, c, d]
       \<and> (\<forall>x \<in> {a, b, c, d}. x \<noteq> 0 \<and> blocks s x = None))"
proof (cases "answers s" rule: list4_cases)
  case 1
  then show ?thesis by (auto simp: allocs_succeed_def)
next
  case (2 a b c d rest)
  then show ?thesis by (auto simp: allocs_succeed_def numeral_eq_Suc)
qed

lemma malloc_props:
  assumes "malloc n s = (p, s')"
  shows "answers s' = tl (answers s)"
    and "\<And>x. blocks s x \<noteq> None \<Longrightarrow> blocks s' x \<noteq> None"
    and "\<And>x. x \<noteq> p \<Longrightarrow> blocks s' x = blocks s x"
    and "p = 0 \<or> (blocks s p = None \<and> blocks s' p \<noteq> None \<and> answers s = p # answers s')"
    and "released p s' = s\<lparr>answers := tl (answers s)\<rparr>"
  using assms by (auto simp: malloc_def released_def fun_upd_idem split: list.splits if_splits)

lemma free_released: "p = 0 \<or> blocks t p \<noteq> None \<Longrightarrow> free p t = Inr (released p t)"
  by (auto simp: free_def released_def)

lemma blocks_released:
  "blocks (released p t) x = (if p \<noteq> 0 \<and> x = p then None else blocks t x)"
  by (simp add: released_def)

lemma released_commute: "released p (released q t) = released q (released p t)"
  by (cases "p = q") (simp_all add: released_def fun_upd_twist)

lemma released_answers: "released p (t\<lparr>answers := A\<rparr>) = (released p t)\<lparr>answers := A\<rparr>"
  by (simp add: released_def)

lemma tl4: "tl (tl (tl (tl xs))) = drop 4 xs"
  by (simp add: numeral_eq_Suc drop_Suc drop_tl)

lemma copy_out_fails:
  assumes "\<not> allocs_succeed 4 s"
  shows "copy_out m hdr nY yRowBytes ySrc yStride nUV uvRowBytes uSrc uStride vSrc vStride s =
     Inr (0, s\<lparr>answers := drop 4 (answers s)\<rparr>)"
proof -
  obtain p1 s1 where m1: "malloc (ySize hdr) s = (p1, s1)" by fastforce
  obtain p2 s2 where m2: "malloc (uvSize hdr) s1 = (p2, s2)" by fastforce
  obtain p3 s3 where m3: "malloc (uvSize hdr) s2 = (p3, s3)" by fastforce
  obtain p4 s4 where m4: "malloc 36 s3 = (p4, s4)" by fastforce
  note P1 = malloc_props [OF m1] and P2 = malloc_props [OF m2]
    and P3 = malloc_props [OF m3] and P4 = malloc_props [OF m4]
  have some0: "p1 = 0 \<or> p2 = 0 \<or> p3 = 0 \<or> p4 = 0"
  proof (rule ccontr)
    assume "\<not> ?thesis"
    then have nz: "p1 \<noteq> 0" "p2 \<noteq> 0" "p3 \<noteq> 0" "p4 \<noteq> 0" by simp_all
    have a: "answers s = p1 # p2 # p3 # p4 # answers s4"
      using P1(4) P2(4) P3(4) P4(4) nz by simp
    have f1: "blocks s p1 = None" using P1(4) nz by simp
    have f2: "blocks s1 p2 = None" using P2(4) nz by simp
    have f3: "blocks s2 p3 = None" using P3(4) nz by simp
    have f4: "blocks s3 p4 = None" using P4(4) nz by simp
    have l1: "blocks s1 p1 \<noteq> None" using P1(4) nz by simp
    have l2: "blocks s2 p2 \<noteq> None" using P2(4) nz by simp
    have l3: "blocks s3 p3 \<noteq> None" using P3(4) nz by simp
    have d12: "p1 \<noteq> p2" using f2 l1 by auto
    have d13: "p1 \<noteq> p3" using f3 P2(2) [OF l1] by auto
    have d23: "p2 \<noteq> p3" using f3 l2 by auto
    have d14: "p1 \<noteq> p4" using f4 P3(2) [OF P2(2) [OF l1]] by auto
    have d24: "p2 \<noteq> p4" using f4 P3(2) [OF l2] by auto
    have d34: "p3 \<noteq> p4" using f4 l3 by auto
    have g2: "blocks s p2 = None" using f2 P1(3) [of p2] d12 by simp
    have g3: "blocks s p3 = None" using f3 P2(3) [of p3] P1(3) [of p3] d13 d23 by simp
    have g4: "blocks s p4 = None"
      using f4 P3(3) [of p4] P2(3) [of p4] P1(3) [of p4] d14 d24 d34 by simp
    have "allocs_succeed 4 s"
      unfolding allocs_succeed_4 using a nz f1 g2 g3 g4 d12 d13 d14 d23 d24 d34 by simp
    with assms show False by simp
  qed
  have L1: "p1 = 0 \<or> blocks s4 p1 \<noteq> None"
    using P1(4) P2(2) P3(2) P4(2) by blast
  have L2: "p2 = 0 \<or> blocks s4 p2 \<noteq> None" using P2(4) P3(2) P4(2) by blast
  have L3: "p3 = 0 \<or> blocks s4 p3 \<noteq> None" using P3(4) P4(2) by blast
  have L4: "p4 = 0 \<or> blocks s4 p4 \<noteq> None" using P4(4) by blast
  have D12: "p2 = 0 \<or> p1 \<noteq> p2" using P2(4) P1(4) by auto
  have D13: "p3 = 0 \<or> p1 \<noteq> p3" using P3(4) P1(4) P2(2) by (metis)
  have D23: "p3 = 0 \<or> p2 \<noteq> p3" using P3(4) P2(4) by auto
  have D14: "p4 = 0 \<or> p1 \<noteq> p4" using P4(4) P1(4) P2(2) P3(2) by (metis)
  have D24: "p4 = 0 \<or> p2 \<noteq> p4" using P4(4) P2(4) P3(2) by (metis)
  have D34: "p4 = 0 \<or> p3 \<noteq> p4" using P4(4) P3(4) by auto
  define t1 where "t1 = released p1 s4"
  define t2 where "t2 = released p2 t1"
  define t3 where "t3 = released p3 t2"
  define t4 where "t4 = released p4 t3"
  have F1: "free p1 s4 = Inr t1" unfolding t1_def using L1 by (rule free_released)
  have F2: "free p2 t1 = Inr t2" unfolding t2_def
    using L2 D12 by (intro free_released) (auto simp: t1_def blocks_released)
  have F3: "free p3 t2 = Inr t3" unfolding t3_def
    using L3 D13 D23 by (intro free_released) (auto simp: t1_def t2_def blocks_released)
  have F4: "free p4 t3 = Inr t4" unfolding t4_def
    using L4 D14 D24 D34
    by (intro free_released) (auto simp: t1_def t2_def t3_def blocks_released)
  have "t4 = released p1 (released p2 (released p3 (released p4 s4)))"
    unfolding t4_def t3_def t2_def t1_def
    by (metis released_commute)
  also have "\<dots> = s\<lparr>answers := drop 4 (answers s)\<rparr>"
    by (simp add: P4(5) P3(5) P2(5) P1(5) P1(1) P2(1) P3(1) released_answers tl4)
  finally have t4: "t4 = s\<lparr>answers := drop 4 (answers s)\<rparr>" .
  show ?thesis
    using some0 by (simp add: copy_out_def m1 m2 m3 m4 F1 F2 F3 F4 t4)
qed

lemma copy_out_succeeds:
  assumes ans: "answers s = a # b # c # d # rest"
    and dist: "distinct [a, b, c, d]"
    and fresh: "\<forall>x \<in> {a, b, c, d}. x \<noteq> 0 \<and> blocks s x = None"
    and ylen: "unat (ySize hdr) = nY * unat yRowBytes"
    and uvlen: "unat (uvSize hdr) = nUV * unat uvRowBytes"
  shows "copy_out m hdr nY yRowBytes ySrc yStride nUV uvRowBytes uSrc uStride vSrc vStride s =
     Inr (d, s\<lparr>blocks := (blocks s)
        (a \<mapsto> Bytes (packed_plane m ySrc yStride (unat yRowBytes) nY),
         b \<mapsto> Bytes (packed_plane m uSrc uStride (unat uvRowBytes) nUV),
         c \<mapsto> Bytes (packed_plane m vSrc vStride (unat uvRowBytes) nUV),
         d \<mapsto> Frame (hdr\<lparr>yPtr := a, uPtr := b, vPtr := c\<rparr>)),
        answers := rest\<rparr>)"
proof -
  define ja where "ja = map (uninit s) [0..<unat (ySize hdr)]"
  define jb where "jb = map (uninit s) [0..<unat (uvSize hdr)]"
  define jd where "jd = map (uninit s) [0..<unat (36 :: int32)]"
  define s1 where "s1 = s\<lparr>blocks := (blocks s)(a \<mapsto> Bytes ja), answers := b # c # d # rest\<rparr>"
  define s2 where "s2 = s1\<lparr>blocks := (blocks s1)(b \<mapsto> Bytes jb), answers := c # d # rest\<rparr>"
  define s3 where "s3 = s2\<lparr>blocks := (blocks s2)(c \<mapsto> Bytes jb), answers := d # rest\<rparr>"
  define s4 where "s4 = s3\<lparr>blocks := (blocks s3)(d \<mapsto> Bytes jd), answers := rest\<rparr>"
  define s5 where "s5 = s4\<lparr>blocks := (blocks s4)(a \<mapsto>
      Bytes (packed_plane m ySrc yStride (unat yRowBytes) nY))\<rparr>"
  define s6 where "s6 = s5\<lparr>blocks := (blocks s5)
      (b \<mapsto> Bytes (packed_plane m uSrc uStride (unat uvRowBytes) nUV),
       c \<mapsto> Bytes (packed_plane m vSrc vStride (unat uvRowBytes) nUV))\<rparr>"
  have nz: "a \<noteq> 0" "b \<noteq> 0" "c \<noteq> 0" "d \<noteq> 0" using fresh by simp_all
  have m1: "malloc (ySize hdr) s = (a, s1)"
    using ans fresh by (simp add: malloc_def s1_def ja_def)
  have m2: "malloc (uvSize hdr) s1 = (b, s2)"
    using dist fresh by (auto simp: malloc_def s1_def s2_def jb_def)
  have m3: "malloc (uvSize hdr) s2 = (c, s3)"
    using dist fresh by (auto simp: malloc_def s1_def s2_def s3_def jb_def)
  have m4: "malloc 36 s3 = (d, s4)"
    using dist fresh by (auto simp: malloc_def s1_def s2_def s3_def s4_def jd_def)
  have la: "blocks s4 a = Some (Bytes ja)" using dist by (auto simp: s1_def s2_def s3_def s4_def)
  have yfit: "nY * unat yRowBytes < 2 ^ 32"
    using unsigned_less [of "ySize hdr", where 'a = nat] ylen by simp
  have uvfit: "nUV * unat uvRowBytes < 2 ^ 32"
    using unsigned_less [of "uvSize hdr", where 'a = nat] uvlen by simp
  have y: "for_rows [0..<nY]
      (\<lambda>row. memcpy a (row * yRowBytes) m (ySrc + row * yStride) yRowBytes) s4 = Inr s5"
    using copy_rows_one [OF la _ yfit, of nY m ySrc yStride] ylen
    by (simp add: ja_def s5_def)
  have lb: "blocks s5 b = Some (Bytes jb)" and lc: "blocks s5 c = Some (Bytes jb)"
    using dist by (auto simp: s1_def s2_def s3_def s4_def s5_def)
  have bc: "b \<noteq> c" using dist by simp
  have uv: "for_rows [0..<nUV]
      (\<lambda>row t. and_then (memcpy b (row * uvRowBytes) m (uSrc + row * uStride) uvRowBytes t)
                 (memcpy c (row * uvRowBytes) m (vSrc + row * vStride) uvRowBytes)) s5 = Inr s6"
    using copy_rows_two [OF lb lc bc _ _ uvfit, of nUV m uSrc uStride vSrc vStride] uvlen
    by (simp add: jb_def s6_def)
  have "copy_out m hdr nY yRowBytes ySrc yStride nUV uvRowBytes uSrc uStride vSrc vStride s =
    Inr (d, s6\<lparr>blocks := (blocks s6)(d \<mapsto> Frame (hdr\<lparr>yPtr := a, uPtr := b, vPtr := c\<rparr>))\<rparr>)"
    by (simp add: copy_out_def m1 m2 m3 m4 nz y uv)
  also have "s6\<lparr>blocks := (blocks s6)(d \<mapsto> Frame (hdr\<lparr>yPtr := a, uPtr := b, vPtr := c\<rparr>))\<rparr> =
    s\<lparr>blocks := (blocks s)
        (a \<mapsto> Bytes (packed_plane m ySrc yStride (unat yRowBytes) nY),
         b \<mapsto> Bytes (packed_plane m uSrc uStride (unat uvRowBytes) nUV),
         c \<mapsto> Bytes (packed_plane m vSrc vStride (unat uvRowBytes) nUV),
         d \<mapsto> Frame (hdr\<lparr>yPtr := a, uPtr := b, vPtr := c\<rparr>)),
        answers := rest\<rparr>"
    using dist by (auto simp: s1_def s2_def s3_def s4_def s5_def s6_def fun_eq_iff heap.equality)
  finally show ?thesis .
qed

lemma sint_bytes_per_sample: "sint (bytes_per_sample bpc) = (if 8 <s bpc then 2 else 1)"
  by (simp add: bytes_per_sample_def)

lemma geometry_okD:
  assumes "geometry_ok w h bpc"
  shows "0 < sint w" "0 < sint h" "sint w < 2 ^ 31 - 1" "sint h < 2 ^ 31 - 1"
    "0 < sint (bytes_per_sample bpc)"
    "sint w * sint h * sint (bytes_per_sample bpc) < 2 ^ 31"
proof -
  let ?b = "sint (bytes_per_sample bpc)"
  from assms have w: "0 < sint w" and h: "0 < sint h"
    and f: "sint w * sint h * ?b < 2 ^ 31 - 1"
    by (simp_all add: geometry_ok_def)
  have b: "1 \<le> ?b" by (simp add: sint_bytes_per_sample)
  have hb: "1 \<le> sint h * ?b" using mult_mono [of 1 "sint h" 1 ?b] h b by simp
  have wb: "1 \<le> sint w * ?b" using mult_mono [of 1 "sint w" 1 ?b] w b by simp
  have "sint w * 1 \<le> sint w * (sint h * ?b)"
    using w hb by (intro mult_left_mono) simp_all
  then have "sint w \<le> sint w * sint h * ?b" by (simp add: mult_ac)
  with f show "sint w < 2 ^ 31 - 1" by linarith
  have "sint h * 1 \<le> sint h * (sint w * ?b)"
    using h wb by (intro mult_left_mono) simp_all
  then have "sint h \<le> sint w * sint h * ?b" by (simp add: mult_ac)
  with f show "sint h < 2 ^ 31 - 1" by linarith
  show "0 < sint w" "0 < sint h" by fact+
  show "0 < ?b" using b by linarith
  show "sint w * sint h * ?b < 2 ^ 31" using f by linarith
qed

lemma luma_len:
  assumes "geometry_ok w h bpc"
  shows "unat (w * h * bytes_per_sample bpc) = nat (sint h) * unat (w * bytes_per_sample bpc)"
  using geometry_okD [OF assms] by (intro plane_size) simp_all

lemma chroma_len:
  assumes g: "geometry_ok w h bpc"
    and cw: "0 < sint cw" "sint cw \<le> sint w" and ch: "0 < sint ch" "sint ch \<le> sint h"
  shows "unat (cw * ch * bytes_per_sample bpc) = nat (sint ch) * unat (cw * bytes_per_sample bpc)"
proof -
  let ?b = "sint (bytes_per_sample bpc)"
  note G = geometry_okD [OF g]
  have "sint cw * sint ch \<le> sint w * sint h"
    using cw ch by (intro mult_mono) simp_all
  then have "sint cw * sint ch * ?b \<le> sint w * sint h * ?b"
    using G(5) by (intro mult_right_mono) simp_all
  with G(6) have "sint cw * sint ch * ?b < 2 ^ 31" by linarith
  then show ?thesis using cw ch G(5) by (intro plane_size) simp_all
qed

lemma half_dim:
  assumes "0 < sint (w::int32)" and "sint w < 2 ^ 31 - 1"
  shows "0 < sint (c_div (w + 1) 2)" and "sint (c_div (w + 1) 2) \<le> sint w"
  using assms ceil_half_bounds [of "sint w"] by (simp_all add: c_div_half)

lemma av1_chroma_dims_range:
  assumes "geometry_ok w h bpc" and "av1_chroma_dims w h layout = (cw, ch)"
  shows "0 < sint cw \<and> sint cw \<le> sint w \<and> 0 < sint ch \<and> sint ch \<le> sint h"
  using geometry_okD [OF assms(1)] assms(2) half_dim [of w] half_dim [of h]
  by (auto simp: av1_chroma_dims_def split: if_splits)

lemma hevc_chroma_dims_range:
  assumes "geometry_ok w h bpc" and "hevc_chroma_dims w h chroma = (cw, ch)"
  shows "0 < sint cw \<and> sint cw \<le> sint w \<and> 0 < sint ch \<and> sint ch \<le> sint h"
  using geometry_okD [OF assms(1)] assms(2) half_dim [of w] half_dim [of h]
  by (auto simp: hevc_chroma_dims_def split: if_splits)

lemma vp9_chroma_dims_range:
  assumes "geometry_ok w h bpc" and "vp9_chroma_dims w h cf = (cw, ch)"
  shows "0 < sint cw \<and> sint cw \<le> sint w \<and> 0 < sint ch \<and> sint ch \<le> sint h"
  using geometry_okD [OF assms(1)] assms(2) half_dim [of w] half_dim [of h]
  by (auto simp: vp9_chroma_dims_def split: if_splits)

lemma row_bytes_unat:
  assumes "geometry_ok w h bpc" and "0 < sint cw" and "sint cw \<le> sint w"
  shows "unat (cw * bytes_per_sample bpc) = row_bytes cw bpc"
proof -
  note G = geometry_okD [OF assms(1)]
  let ?b = "sint (bytes_per_sample bpc)"
  have "sint cw * ?b \<le> sint w * ?b" using assms(3) G(5) by (intro mult_right_mono) simp_all
  also have "sint w * ?b * 1 \<le> sint w * ?b * sint h"
    using G by (intro mult_left_mono) simp_all
  finally have "sint cw * ?b < 2 ^ 31" using G(6) by (simp add: mult_ac)
  then show ?thesis using assms(2) G(5) by (simp add: row_bytes_def sint_mult2)
qed

lemma and_then_eq_Inr:
  "and_then x k = Inr r \<longleftrightarrow> (\<exists>y. x = Inr y \<and> k y = Inr r)"
  by (cases x) simp_all

lemma copy_out_header:
  assumes "copy_out m hdr nY yRowBytes ySrc yStride nUV uvRowBytes uSrc uStride vSrc vStride s
      = Inr (tok, s')" and "tok \<noteq> 0"
  shows "allocs_succeed 4 s \<and>
    (\<exists>a b c. a \<noteq> 0 \<and> b \<noteq> 0 \<and> c \<noteq> 0 \<and>
       blocks s' tok = Some (Frame (hdr\<lparr>yPtr := a, uPtr := b, vPtr := c\<rparr>)))"
proof -
  have ok: "allocs_succeed 4 s"
  proof (rule ccontr)
    assume "\<not> allocs_succeed 4 s"
    from copy_out_fails [OF this] assms show False by simp
  qed
  obtain p1 s1 where m1: "malloc (ySize hdr) s = (p1, s1)" by fastforce
  obtain p2 s2 where m2: "malloc (uvSize hdr) s1 = (p2, s2)" by fastforce
  obtain p3 s3 where m3: "malloc (uvSize hdr) s2 = (p3, s3)" by fastforce
  obtain p4 s4 where m4: "malloc 36 s3 = (p4, s4)" by fastforce
  have nz: "\<not> (p1 = 0 \<or> p2 = 0 \<or> p3 = 0 \<or> p4 = 0)"
  proof
    assume z: "p1 = 0 \<or> p2 = 0 \<or> p3 = 0 \<or> p4 = 0"
    from assms(1) have "and_then (free p1 s4) (\<lambda>s5.
         and_then (free p2 s5) (\<lambda>s6.
         and_then (free p3 s6) (\<lambda>s7.
         and_then (free p4 s7) (\<lambda>s8. Inr (0, s8))))) = Inr (tok, s')"
      using z by (simp add: copy_out_def m1 m2 m3 m4)
    then have "tok = 0" by (auto simp: and_then_eq_Inr)
    with assms(2) show False by simp
  qed
  from assms(1) nz have "blocks s' tok = Some (Frame (hdr\<lparr>yPtr := p1, uPtr := p2, vPtr := p3\<rparr>))"
    by (auto simp: copy_out_def m1 m2 m3 m4 and_then_eq_Inr)
  with nz ok show ?thesis by blast
qed

section \<open>What the three extractors return\<close>

lemma tightly_packed_packed_plane:
  "tightly_packed (packed_plane m src stride rb n) m src stride rb n"
  by (simp add: tightly_packed_def list_all_iff packed_plane_row)

lemma copy_out_result:
  assumes r: "copy_out m hdr nY yRowBytes ySrc yStride nUV uvRowBytes uSrc uStride vSrc vStride s
      = Inr (tok, s')" and nz: "tok \<noteq> 0"
    and ylen: "unat (ySize hdr) = nY * unat yRowBytes"
    and uvlen: "unat (uvSize hdr) = nUV * unat uvRowBytes"
  shows "\<exists>a b c. a \<noteq> 0 \<and> b \<noteq> 0 \<and> c \<noteq> 0 \<and>
     blocks s' tok = Some (Frame (hdr\<lparr>yPtr := a, uPtr := b, vPtr := c\<rparr>)) \<and>
     blocks s' a = Some (Bytes (packed_plane m ySrc yStride (unat yRowBytes) nY)) \<and>
     blocks s' b = Some (Bytes (packed_plane m uSrc uStride (unat uvRowBytes) nUV)) \<and>
     blocks s' c = Some (Bytes (packed_plane m vSrc vStride (unat uvRowBytes) nUV))"
proof -
  from copy_out_header [OF r nz] have "allocs_succeed 4 s" by simp
  then obtain a b c d rest where ans: "answers s = a # b # c # d # rest"
    and dist: "distinct [a, b, c, d]"
    and fresh: "\<forall>x \<in> {a, b, c, d}. x \<noteq> 0 \<and> blocks s x = None"
    unfolding allocs_succeed_4 by blast
  from copy_out_succeeds [OF ans dist fresh ylen uvlen, of m ySrc yStride uSrc uStride vSrc vStride] r
  have tok: "tok = d"
    and s': "s' = s\<lparr>blocks := (blocks s)
        (a \<mapsto> Bytes (packed_plane m ySrc yStride (unat yRowBytes) nY),
         b \<mapsto> Bytes (packed_plane m uSrc uStride (unat uvRowBytes) nUV),
         c \<mapsto> Bytes (packed_plane m vSrc vStride (unat uvRowBytes) nUV),
         d \<mapsto> Frame (hdr\<lparr>yPtr := a, uPtr := b, vPtr := c\<rparr>)),
        answers := rest\<rparr>"
    by simp_all
  have "a \<noteq> 0" "b \<noteq> 0" "c \<noteq> 0" using fresh by simp_all
  moreover have "blocks s' tok = Some (Frame (hdr\<lparr>yPtr := a, uPtr := b, vPtr := c\<rparr>))"
    by (simp add: s' tok)
  moreover have "blocks s' a = Some (Bytes (packed_plane m ySrc yStride (unat yRowBytes) nY))"
    using dist by (auto simp: s')
  moreover have "blocks s' b = Some (Bytes (packed_plane m uSrc uStride (unat uvRowBytes) nUV))"
    using dist by (auto simp: s')
  moreover have "blocks s' c = Some (Bytes (packed_plane m vSrc vStride (unat uvRowBytes) nUV))"
    using dist by (auto simp: s')
  ultimately show ?thesis by blast
qed

lemma copy_out_total:
  assumes ok: "allocs_succeed 4 s"
    and ylen: "unat (ySize hdr) = nY * unat yRowBytes"
    and uvlen: "unat (uvSize hdr) = nUV * unat uvRowBytes"
  shows "\<exists>tok s'. copy_out m hdr nY yRowBytes ySrc yStride nUV uvRowBytes uSrc uStride vSrc vStride s
      = Inr (tok, s') \<and> tok \<noteq> 0"
proof -
  from ok obtain a b c d rest where ans: "answers s = a # b # c # d # rest"
    and dist: "distinct [a, b, c, d]"
    and fresh: "\<forall>x \<in> {a, b, c, d}. x \<noteq> 0 \<and> blocks s x = None"
    unfolding allocs_succeed_4 by blast
  from copy_out_succeeds [OF ans dist fresh ylen uvlen, of m ySrc yStride uSrc uStride vSrc vStride]
    fresh show ?thesis by simp
qed

text \<open>What a returned record looks like once the plane sizes are the row counts times
  the row widths: all three planes are live, packed copies of the sizes recorded.\<close>

lemma copy_out_planes:
  assumes r: "copy_out m hdr nY yRowBytes ySrc yStride nUV uvRowBytes uSrc uStride vSrc vStride s
      = Inr (tok, s')" and nz: "tok \<noteq> 0"
    and ylen: "unat (ySize hdr) = nY * unat yRowBytes"
    and uvlen: "unat (uvSize hdr) = nUV * unat uvRowBytes"
  shows "\<exists>f. blocks s' tok = Some (Frame f) \<and>
     f\<lparr>yPtr := 0, uPtr := 0, vPtr := 0\<rparr> = hdr\<lparr>yPtr := 0, uPtr := 0, vPtr := 0\<rparr> \<and>
     plane_copied s' (yPtr f) m ySrc yStride (unat yRowBytes) nY \<and>
     plane_copied s' (uPtr f) m uSrc uStride (unat uvRowBytes) nUV \<and>
     plane_copied s' (vPtr f) m vSrc vStride (unat uvRowBytes) nUV \<and>
     record_complete s' tok"
proof -
  from copy_out_result [OF r nz ylen uvlen] obtain a b c where
    nz3: "a \<noteq> 0" "b \<noteq> 0" "c \<noteq> 0"
    and f: "blocks s' tok = Some (Frame (hdr\<lparr>yPtr := a, uPtr := b, vPtr := c\<rparr>))"
    and y: "blocks s' a = Some (Bytes (packed_plane m ySrc yStride (unat yRowBytes) nY))"
    and u: "blocks s' b = Some (Bytes (packed_plane m uSrc uStride (unat uvRowBytes) nUV))"
    and v: "blocks s' c = Some (Bytes (packed_plane m vSrc vStride (unat uvRowBytes) nUV))"
    by blast
  show ?thesis
    using nz3 ylen uvlen
    by (intro exI [of _ "hdr\<lparr>yPtr := a, uPtr := b, vPtr := c\<rparr>"])
       (simp add: f y u v plane_copied_def record_complete_def plane_live_def
          tightly_packed_packed_plane)
qed

subsection \<open>AV1\<close>

lemma av1_sizes:
  assumes g: "geometry_ok (p_w pic) (p_h pic) (p_bpc pic)"
  defines "cd \<equiv> av1_chroma_dims (p_w pic) (p_h pic) (p_layout pic)"
  shows "unat (ySize (av1_frame_header pic)) =
      nat (sint (p_h pic)) * unat (p_w pic * bytes_per_sample (p_bpc pic))"
    and "unat (uvSize (av1_frame_header pic)) =
      nat (sint (snd cd)) * unat (fst cd * bytes_per_sample (p_bpc pic))"
    and "unat (p_w pic * bytes_per_sample (p_bpc pic)) = row_bytes (p_w pic) (p_bpc pic)"
    and "unat (fst cd * bytes_per_sample (p_bpc pic)) = row_bytes (fst cd) (p_bpc pic)"
proof -
  note G = geometry_okD [OF g]
  have rng: "0 < sint (fst cd) \<and> sint (fst cd) \<le> sint (p_w pic)
      \<and> 0 < sint (snd cd) \<and> sint (snd cd) \<le> sint (p_h pic)"
    using av1_chroma_dims_range [OF g, of "p_layout pic" "fst cd" "snd cd"] by (simp add: cd_def)
  show "unat (ySize (av1_frame_header pic)) =
      nat (sint (p_h pic)) * unat (p_w pic * bytes_per_sample (p_bpc pic))"
    using luma_len [OF g] by (simp add: av1_frame_header_def Let_def)
  show "unat (uvSize (av1_frame_header pic)) =
      nat (sint (snd cd)) * unat (fst cd * bytes_per_sample (p_bpc pic))"
    using chroma_len [OF g, of "fst cd" "snd cd"] rng
    by (simp add: av1_frame_header_def Let_def cd_def)
  show "unat (p_w pic * bytes_per_sample (p_bpc pic)) = row_bytes (p_w pic) (p_bpc pic)"
    using row_bytes_unat [OF g, of "p_w pic"] G by simp
  show "unat (fst cd * bytes_per_sample (p_bpc pic)) = row_bytes (fst cd) (p_bpc pic)"
    using row_bytes_unat [OF g, of "fst cd"] rng by simp
qed

lemma av1_extract_planes:
  assumes r: "av1_extract_picture m (Some pic) s = Inr (tok, s')" and nz: "tok \<noteq> 0"
    and g: "geometry_ok (p_w pic) (p_h pic) (p_bpc pic)"
  defines "cd \<equiv> av1_chroma_dims (p_w pic) (p_h pic) (p_layout pic)"
  shows "\<exists>f. blocks s' tok = Some (Frame f) \<and>
     f\<lparr>yPtr := 0, uPtr := 0, vPtr := 0\<rparr> = av1_frame_header pic \<and>
     plane_copied s' (yPtr f) m (pic_data pic 0) (pic_stride pic 0)
        (row_bytes (p_w pic) (p_bpc pic)) (nat (sint (p_h pic))) \<and>
     plane_copied s' (uPtr f) m (pic_data pic 1) (pic_stride pic 1)
        (row_bytes (fst cd) (p_bpc pic)) (nat (sint (snd cd))) \<and>
     plane_copied s' (vPtr f) m (pic_data pic 2) (pic_stride pic 1)
        (row_bytes (fst cd) (p_bpc pic)) (nat (sint (snd cd))) \<and>
     record_complete s' tok"
proof -
  have v: "pic_data pic 0 \<noteq> 0" using r nz by (auto simp: av1_extract_form split: if_splits)
  note S = av1_sizes [OF g, folded cd_def]
  from r v have c: "copy_out m (av1_frame_header pic)
         (nat (sint (p_h pic))) (p_w pic * bytes_per_sample (p_bpc pic))
         (pic_data pic 0) (pic_stride pic 0)
         (nat (sint (snd cd))) (fst cd * bytes_per_sample (p_bpc pic))
         (pic_data pic 1) (pic_stride pic 1)
         (pic_data pic 2) (pic_stride pic 1) s = Inr (tok, s')"
    by (simp add: av1_extract_form cd_def)
  have h: "(av1_frame_header pic)\<lparr>yPtr := 0, uPtr := 0, vPtr := 0\<rparr> = av1_frame_header pic"
    by (simp add: av1_frame_header_def Let_def)
  from copy_out_planes [OF c nz S(1) S(2)] show ?thesis by (simp add: S(3) S(4) h)
qed

lemma av1_extract_fails:
  assumes "\<not> allocs_succeed 4 s"
  shows "\<exists>s'. av1_extract_picture m pic_ptr s = Inr (0, s') \<and> blocks s' = blocks s"
proof (cases pic_ptr)
  case None
  then show ?thesis by (simp add: av1_extract_picture_def)
next
  case (Some pic)
  then show ?thesis by (simp add: av1_extract_form copy_out_fails [OF assms])
qed

lemma av1_extract_header:
  assumes r: "av1_extract_picture m pic_ptr s = Inr (tok, s')" and nz: "tok \<noteq> 0"
  shows "allocs_succeed 4 s \<and> (\<exists>pic f. pic_ptr = Some pic \<and> blocks s' tok = Some (Frame f) \<and>
     f\<lparr>yPtr := 0, uPtr := 0, vPtr := 0\<rparr> = av1_frame_header pic \<and>
     yPtr f \<noteq> 0 \<and> uPtr f \<noteq> 0 \<and> vPtr f \<noteq> 0)"
proof (cases pic_ptr)
  case None
  with r nz show ?thesis by (simp add: av1_extract_picture_def)
next
  case (Some pic)
  with r nz have c: "copy_out m (av1_frame_header pic)
         (nat (sint (p_h pic))) (p_w pic * bytes_per_sample (p_bpc pic))
         (pic_data pic 0) (pic_stride pic 0)
         (nat (sint (snd (av1_chroma_dims (p_w pic) (p_h pic) (p_layout pic)))))
         (fst (av1_chroma_dims (p_w pic) (p_h pic) (p_layout pic)) * bytes_per_sample (p_bpc pic))
         (pic_data pic 1) (pic_stride pic 1)
         (pic_data pic 2) (pic_stride pic 1) s = Inr (tok, s')"
    by (auto simp: av1_extract_form split: if_splits)
  from copy_out_header [OF c nz] obtain a b c where
    "allocs_succeed 4 s" "a \<noteq> 0" "b \<noteq> 0" "c \<noteq> 0"
    "blocks s' tok = Some (Frame ((av1_frame_header pic)\<lparr>yPtr := a, uPtr := b, vPtr := c\<rparr>))"
    by blast
  then show ?thesis using Some
    by (intro conjI exI [of _ pic]
          exI [of _ "(av1_frame_header pic)\<lparr>yPtr := a, uPtr := b, vPtr := c\<rparr>"])
       (simp_all add: av1_frame_header_def Let_def)
qed

lemma av1_extract_total:
  assumes ok: "allocs_succeed 4 s" and v: "pic_data pic 0 \<noteq> 0"
    and g: "geometry_ok (p_w pic) (p_h pic) (p_bpc pic)"
  shows "\<exists>tok s'. av1_extract_picture m (Some pic) s = Inr (tok, s') \<and> tok \<noteq> 0
     \<and> record_complete s' tok"
proof -
  note S = av1_sizes [OF g]
  from copy_out_total [OF ok S(1) S(2), of m "pic_data pic 0" "pic_stride pic 0"
      "pic_data pic 1" "pic_stride pic 1" "pic_data pic 2" "pic_stride pic 1"] v
  obtain tok s' where
    r: "av1_extract_picture m (Some pic) s = Inr (tok, s')" and nz: "tok \<noteq> 0"
    by (auto simp: av1_extract_form)
  from av1_extract_planes [OF r nz g] r nz show ?thesis by blast
qed

subsection \<open>HEVC\<close>

lemma hevc_sizes:
  assumes g: "geometry_ok (de265_get_image_width img 0) (de265_get_image_height img 0)
      (de265_get_bits_per_pixel img 0)"
  defines "w \<equiv> de265_get_image_width img 0" and "h \<equiv> de265_get_image_height img 0"
    and "bpp \<equiv> de265_get_bits_per_pixel img 0"
  defines "cd \<equiv> hevc_chroma_dims w h (de265_get_chroma_format img)"
  shows "unat (ySize (hevc_frame_header img)) = nat (sint h) * unat (w * bytes_per_sample bpp)"
    and "unat (uvSize (hevc_frame_header img)) =
      nat (sint (snd cd)) * unat (fst cd * bytes_per_sample bpp)"
    and "unat (w * bytes_per_sample bpp) = row_bytes w bpp"
    and "unat (fst cd * bytes_per_sample bpp) = row_bytes (fst cd) bpp"
proof -
  have g': "geometry_ok w h bpp" using g by (simp add: w_def h_def bpp_def)
  note G = geometry_okD [OF g']
  have rng: "0 < sint (fst cd) \<and> sint (fst cd) \<le> sint w
      \<and> 0 < sint (snd cd) \<and> sint (snd cd) \<le> sint h"
    using hevc_chroma_dims_range [OF g', of "de265_get_chroma_format img" "fst cd" "snd cd"]
    by (simp add: cd_def)
  show "unat (ySize (hevc_frame_header img)) = nat (sint h) * unat (w * bytes_per_sample bpp)"
    using luma_len [OF g'] by (simp add: hevc_frame_header_def Let_def w_def h_def bpp_def)
  show "unat (uvSize (hevc_frame_header img)) =
      nat (sint (snd cd)) * unat (fst cd * bytes_per_sample bpp)"
    using chroma_len [OF g', of "fst cd" "snd cd"] rng
    by (simp add: hevc_frame_header_def Let_def cd_def w_def h_def bpp_def)
  show "unat (w * bytes_per_sample bpp) = row_bytes w bpp"
    using row_bytes_unat [OF g', of w] G by simp
  show "unat (fst cd * bytes_per_sample bpp) = row_bytes (fst cd) bpp"
    using row_bytes_unat [OF g', of "fst cd"] rng by simp
qed

lemma hevc_extract_planes:
  assumes r: "hevc_extract_picture m (Some img) s = Inr (tok, s')" and nz: "tok \<noteq> 0"
    and g: "geometry_ok (de265_get_image_width img 0) (de265_get_image_height img 0)
      (de265_get_bits_per_pixel img 0)"
  defines "cd \<equiv> hevc_chroma_dims (de265_get_image_width img 0) (de265_get_image_height img 0)
      (de265_get_chroma_format img)"
  shows "\<exists>f. blocks s' tok = Some (Frame f) \<and>
     f\<lparr>yPtr := 0, uPtr := 0, vPtr := 0\<rparr> = hevc_frame_header img \<and>
     plane_copied s' (yPtr f) m (fst (de265_get_image_plane img 0))
        (snd (de265_get_image_plane img 0))
        (row_bytes (de265_get_image_width img 0) (de265_get_bits_per_pixel img 0))
        (nat (sint (de265_get_image_height img 0))) \<and>
     plane_copied s' (uPtr f) m (fst (de265_get_image_plane img 1))
        (snd (de265_get_image_plane img 1))
        (row_bytes (fst cd) (de265_get_bits_per_pixel img 0)) (nat (sint (snd cd))) \<and>
     plane_copied s' (vPtr f) m (fst (de265_get_image_plane img 2))
        (snd (de265_get_image_plane img 2))
        (row_bytes (fst cd) (de265_get_bits_per_pixel img 0)) (nat (sint (snd cd))) \<and>
     record_complete s' tok"
proof -
  note S = hevc_sizes [OF g, folded cd_def]
  from r nz have c: "copy_out m (hevc_frame_header img)
         (nat (sint (de265_get_image_height img 0)))
         (de265_get_image_width img 0 * bytes_per_sample (de265_get_bits_per_pixel img 0))
         (fst (de265_get_image_plane img 0)) (snd (de265_get_image_plane img 0))
         (nat (sint (snd cd)))
         (fst cd * bytes_per_sample (de265_get_bits_per_pixel img 0))
         (fst (de265_get_image_plane img 1)) (snd (de265_get_image_plane img 1))
         (fst (de265_get_image_plane img 2)) (snd (de265_get_image_plane img 2)) s
       = Inr (tok, s')"
    by (auto simp: hevc_extract_form cd_def split: if_splits)
  have h: "(hevc_frame_header img)\<lparr>yPtr := 0, uPtr := 0, vPtr := 0\<rparr> = hevc_frame_header img"
    by (simp add: hevc_frame_header_def Let_def)
  from copy_out_planes [OF c nz S(1) S(2)] show ?thesis by (simp add: S(3) S(4) h)
qed

lemma hevc_extract_fails:
  assumes "\<not> allocs_succeed 4 s"
  shows "\<exists>s'. hevc_extract_picture m img_ptr s = Inr (0, s') \<and> blocks s' = blocks s"
proof (cases img_ptr)
  case None
  then show ?thesis by (simp add: hevc_extract_picture_def)
next
  case (Some img)
  then show ?thesis by (simp add: hevc_extract_form copy_out_fails [OF assms])
qed

lemma hevc_extract_header:
  assumes r: "hevc_extract_picture m img_ptr s = Inr (tok, s')" and nz: "tok \<noteq> 0"
  shows "allocs_succeed 4 s \<and> (\<exists>img f. img_ptr = Some img \<and> blocks s' tok = Some (Frame f) \<and>
     f\<lparr>yPtr := 0, uPtr := 0, vPtr := 0\<rparr> = hevc_frame_header img \<and>
     yPtr f \<noteq> 0 \<and> uPtr f \<noteq> 0 \<and> vPtr f \<noteq> 0)"
proof (cases img_ptr)
  case None
  with r nz show ?thesis by (simp add: hevc_extract_picture_def)
next
  case (Some img)
  define cd where "cd = hevc_chroma_dims (de265_get_image_width img 0)
      (de265_get_image_height img 0) (de265_get_chroma_format img)"
  from Some r nz have c: "copy_out m (hevc_frame_header img)
         (nat (sint (de265_get_image_height img 0)))
         (de265_get_image_width img 0 * bytes_per_sample (de265_get_bits_per_pixel img 0))
         (fst (de265_get_image_plane img 0)) (snd (de265_get_image_plane img 0))
         (nat (sint (snd cd)))
         (fst cd * bytes_per_sample (de265_get_bits_per_pixel img 0))
         (fst (de265_get_image_plane img 1)) (snd (de265_get_image_plane img 1))
         (fst (de265_get_image_plane img 2)) (snd (de265_get_image_plane img 2)) s
       = Inr (tok, s')"
    by (auto simp: hevc_extract_form cd_def split: if_splits)
  from copy_out_header [OF c nz] obtain a b c where
    "allocs_succeed 4 s" "a \<noteq> 0" "b \<noteq> 0" "c \<noteq> 0"
    "blocks s' tok = Some (Frame ((hevc_frame_header img)\<lparr>yPtr := a, uPtr := b, vPtr := c\<rparr>))"
    by blast
  then show ?thesis using Some
    by (intro conjI exI [of _ img]
          exI [of _ "(hevc_frame_header img)\<lparr>yPtr := a, uPtr := b, vPtr := c\<rparr>"])
       (simp_all add: hevc_frame_header_def Let_def)
qed

lemma hevc_extract_total:
  assumes ok: "allocs_succeed 4 s"
    and v: "fst (de265_get_image_plane img 0) \<noteq> 0" "fst (de265_get_image_plane img 1) \<noteq> 0"
      "fst (de265_get_image_plane img 2) \<noteq> 0"
    and g: "geometry_ok (de265_get_image_width img 0) (de265_get_image_height img 0)
      (de265_get_bits_per_pixel img 0)"
  shows "\<exists>tok s'. hevc_extract_picture m (Some img) s = Inr (tok, s') \<and> tok \<noteq> 0
     \<and> record_complete s' tok"
proof -
  note S = hevc_sizes [OF g]
  from copy_out_total [OF ok S(1) S(2), of m "fst (de265_get_image_plane img 0)"
      "snd (de265_get_image_plane img 0)" "fst (de265_get_image_plane img 1)"
      "snd (de265_get_image_plane img 1)" "fst (de265_get_image_plane img 2)"
      "snd (de265_get_image_plane img 2)"] v
  obtain tok s' where
    r: "hevc_extract_picture m (Some img) s = Inr (tok, s')" and nz: "tok \<noteq> 0"
    by (auto simp: hevc_extract_form)
  from hevc_extract_planes [OF r nz g] r nz show ?thesis by blast
qed

subsection \<open>VP9\<close>

lemma vp9_sizes:
  assumes g: "geometry_ok (d_w img) (d_h img) (vpx_fmt_bpc K (fmt img))"
  defines "bpc \<equiv> vpx_fmt_bpc K (fmt img)"
  defines "cd \<equiv> vp9_chroma_dims (d_w img) (d_h img) (vpx_fmt_to_chroma K (fmt img))"
  shows "unat (ySize (vp9_frame_header K img)) =
      unat (d_h img) * unat (d_w img * bytes_per_sample bpc)"
    and "unat (uvSize (vp9_frame_header K img)) =
      unat (snd cd) * unat (fst cd * bytes_per_sample bpc)"
    and "unat (d_w img * bytes_per_sample bpc) = row_bytes (d_w img) bpc"
    and "unat (fst cd * bytes_per_sample bpc) = row_bytes (fst cd) bpc"
    and "unat (d_h img) = nat (sint (d_h img))"
    and "unat (snd cd) = nat (sint (snd cd))"
proof -
  have g': "geometry_ok (d_w img) (d_h img) bpc" using g by (simp add: bpc_def)
  note G = geometry_okD [OF g']
  have rng: "0 < sint (fst cd) \<and> sint (fst cd) \<le> sint (d_w img)
      \<and> 0 < sint (snd cd) \<and> sint (snd cd) \<le> sint (d_h img)"
    using vp9_chroma_dims_range [OF g', of "vpx_fmt_to_chroma K (fmt img)" "fst cd" "snd cd"]
    by (simp add: cd_def)
  show h: "unat (d_h img) = nat (sint (d_h img))" using G by (simp add: unat_nonneg)
  show ch: "unat (snd cd) = nat (sint (snd cd))" using rng by (simp add: unat_nonneg)
  show "unat (ySize (vp9_frame_header K img)) =
      unat (d_h img) * unat (d_w img * bytes_per_sample bpc)"
    using luma_len [OF g'] by (simp add: vp9_frame_header_def Let_def bpc_def h)
  show "unat (uvSize (vp9_frame_header K img)) =
      unat (snd cd) * unat (fst cd * bytes_per_sample bpc)"
    using chroma_len [OF g', of "fst cd" "snd cd"] rng
    by (simp add: vp9_frame_header_def Let_def cd_def bpc_def ch [unfolded cd_def])
  show "unat (d_w img * bytes_per_sample bpc) = row_bytes (d_w img) bpc"
    using row_bytes_unat [OF g', of "d_w img"] G by simp
  show "unat (fst cd * bytes_per_sample bpc) = row_bytes (fst cd) bpc"
    using row_bytes_unat [OF g', of "fst cd"] rng by simp
qed

lemma vp9_extract_planes:
  assumes r: "vp9_extract_image K m (Some img) s = Inr (tok, s')" and nz: "tok \<noteq> 0"
    and g: "geometry_ok (d_w img) (d_h img) (vpx_fmt_bpc K (fmt img))"
  defines "cd \<equiv> vp9_chroma_dims (d_w img) (d_h img) (vpx_fmt_to_chroma K (fmt img))"
  shows "\<exists>f. blocks s' tok = Some (Frame f) \<and>
     f\<lparr>yPtr := 0, uPtr := 0, vPtr := 0\<rparr> = vp9_frame_header K img \<and>
     plane_copied s' (yPtr f) m (planes img 0) (img_stride img 0)
        (row_bytes (d_w img) (vpx_fmt_bpc K (fmt img))) (nat (sint (d_h img))) \<and>
     plane_copied s' (uPtr f) m (planes img 1) (img_stride img 1)
        (row_bytes (fst cd) (vpx_fmt_bpc K (fmt img))) (nat (sint (snd cd))) \<and>
     plane_copied s' (vPtr f) m (planes img 2) (img_stride img 2)
        (row_bytes (fst cd) (vpx_fmt_bpc K (fmt img))) (nat (sint (snd cd))) \<and>
     record_complete s' tok"
proof -
  note S = vp9_sizes [OF g, folded cd_def]
  from r have c: "copy_out m (vp9_frame_header K img)
       (unat (d_h img)) (d_w img * bytes_per_sample (vpx_fmt_bpc K (fmt img)))
       (planes img 0) (img_stride img 0)
       (unat (snd cd)) (fst cd * bytes_per_sample (vpx_fmt_bpc K (fmt img)))
       (planes img 1) (img_stride img 1)
       (planes img 2) (img_stride img 2) s = Inr (tok, s')"
    by (simp add: vp9_extract_form cd_def)
  have h: "(vp9_frame_header K img)\<lparr>yPtr := 0, uPtr := 0, vPtr := 0\<rparr> = vp9_frame_header K img"
    by (simp add: vp9_frame_header_def Let_def)
  from copy_out_planes [OF c nz S(1) S(2)] show ?thesis by (simp add: S(3) S(4) S(5) S(6) h)
qed

lemma vp9_extract_fails:
  assumes "\<not> allocs_succeed 4 s"
  shows "\<exists>s'. vp9_extract_image K m img_ptr s = Inr (0, s') \<and> blocks s' = blocks s"
proof (cases img_ptr)
  case None
  then show ?thesis by (simp add: vp9_extract_image_def)
next
  case (Some img)
  then show ?thesis by (simp add: vp9_extract_form copy_out_fails [OF assms])
qed

lemma vp9_extract_header:
  assumes r: "vp9_extract_image K m img_ptr s = Inr (tok, s')" and nz: "tok \<noteq> 0"
  shows "allocs_succeed 4 s \<and> (\<exists>img f. img_ptr = Some img \<and> blocks s' tok = Some (Frame f) \<and>
     f\<lparr>yPtr := 0, uPtr := 0, vPtr := 0\<rparr> = vp9_frame_header K img \<and>
     yPtr f \<noteq> 0 \<and> uPtr f \<noteq> 0 \<and> vPtr f \<noteq> 0)"
proof (cases img_ptr)
  case None
  with r nz show ?thesis by (simp add: vp9_extract_image_def)
next
  case (Some img)
  define cd where "cd = vp9_chroma_dims (d_w img) (d_h img) (vpx_fmt_to_chroma K (fmt img))"
  from Some r have c: "copy_out m (vp9_frame_header K img)
       (unat (d_h img)) (d_w img * bytes_per_sample (vpx_fmt_bpc K (fmt img)))
       (planes img 0) (img_stride img 0)
       (unat (snd cd)) (fst cd * bytes_per_sample (vpx_fmt_bpc K (fmt img)))
       (planes img 1) (img_stride img 1)
       (planes img 2) (img_stride img 2) s = Inr (tok, s')"
    by (simp add: vp9_extract_form cd_def)
  from copy_out_header [OF c nz] obtain a b c where
    "allocs_succeed 4 s" "a \<noteq> 0" "b \<noteq> 0" "c \<noteq> 0"
    "blocks s' tok = Some (Frame ((vp9_frame_header K img)\<lparr>yPtr := a, uPtr := b, vPtr := c\<rparr>))"
    by blast
  then show ?thesis using Some
    by (intro conjI exI [of _ img]
          exI [of _ "(vp9_frame_header K img)\<lparr>yPtr := a, uPtr := b, vPtr := c\<rparr>"])
       (simp_all add: vp9_frame_header_def Let_def)
qed

lemma vp9_extract_total:
  assumes ok: "allocs_succeed 4 s"
    and g: "geometry_ok (d_w img) (d_h img) (vpx_fmt_bpc K (fmt img))"
  shows "\<exists>tok s'. vp9_extract_image K m (Some img) s = Inr (tok, s') \<and> tok \<noteq> 0
     \<and> record_complete s' tok"
proof -
  note S = vp9_sizes [OF g]
  from copy_out_total [OF ok S(1) S(2), of m "planes img 0" "img_stride img 0"
      "planes img 1" "img_stride img 1" "planes img 2" "img_stride img 2"]
  obtain tok s' where
    r: "vp9_extract_image K m (Some img) s = Inr (tok, s')" and nz: "tok \<noteq> 0"
    by (auto simp: vp9_extract_form)
  from vp9_extract_planes [OF r nz g] r nz show ?thesis by blast
qed


section \<open>Facts about the sample inputs\<close>

lemma sample_allocs: "allocs_succeed 4 (sample_heap :: 'd heap)"
  by (simp add: allocs_succeed_def sample_heap_def)

lemma sample_geometry: "geometry_ok 3 2 8" "geometry_ok 2 2 8" "geometry_ok 3 2 12"
  "geometry_ok 3 2 10"
  by (simp_all add: geometry_ok_def bytes_per_sample_def)

lemma plane_copied_bytes:
  "plane_copied s p m src stride rb n \<Longrightarrow>
     blocks s p = Some (Bytes (packed_plane m src stride rb n))"
proof -
  assume a: "plane_copied s p m src stride rb n"
  then obtain buf where b: "blocks s p = Some (Bytes buf)"
    and t: "tightly_packed buf m src stride rb n"
    by (auto simp: plane_copied_def split: option.splits obj.splits)
  have "buf = packed_plane m src stride rb n"
  proof (rule nth_equalityI)
    show "length buf = length (packed_plane m src stride rb n)"
      using t by (simp add: tightly_packed_def)
  next
    fix i assume i: "i < length buf"
    then have lt: "i < n * rb" using t by (simp add: tightly_packed_def)
    then have rb: "0 < rb" by (cases rb) simp_all
    define r where "r = i div rb"
    have r: "r < n" using lt rb unfolding r_def
      by (simp add: less_mult_imp_div_less)
    have e: "take rb (drop (r * rb) buf) = take rb (drop (r * rb) (packed_plane m src stride rb n))"
      using t r by (simp add: tightly_packed_def list_all_iff packed_plane_row)
    have j: "i mod rb < rb" using rb by simp
    have "i = r * rb + i mod rb" by (simp add: r_def)
    moreover have "r * rb + i mod rb < length buf" using i calculation by simp
    ultimately have "buf ! i = take rb (drop (r * rb) buf) ! (i mod rb)"
      using j by (metis add.commute less_or_eq_imp_le nth_drop nth_take order.strict_implies_order add_leD1 nat_le_linear)
    also have "\<dots> = take rb (drop (r * rb) (packed_plane m src stride rb n)) ! (i mod rb)"
      by (simp add: e)
    also have "\<dots> = packed_plane m src stride rb n ! i"
      using j lt \<open>i = r * rb + i mod rb\<close> by (metis add.commute length_packed_plane nth_drop nth_take nat_le_linear add_leD1 order.strict_implies_order)
    finally show "buf ! i = packed_plane m src stride rb n ! i" .
  qed
  with b show ?thesis by simp
qed

lemma sample_values1:
  "row_bytes 3 8 = 3" "row_bytes 2 8 = 2"
  "av1_chroma_dims 3 2 DAV1D_PIXEL_LAYOUT_I420 = (2, 1)"
  by (simp_all add: row_bytes_def bytes_per_sample_def av1_chroma_dims_def c_div_def
      signed_divide_int_def)

lemma sample_values2:
  "packed_plane sample_memory 256 16 3 2 = [0, 1, 2, 16, 17, 18]"
  by code_simp

lemma sample_values3:
  "packed_plane sample_memory 544 8 2 (Suc 0) = [32, 33]"
  "packed_plane sample_memory 832 8 2 (Suc 0) = [64, 65]"
  by code_simp+


lemma sample_hevc_create:
  "hevc_create_decoder sample_de265 sample_heap = Inr (4096, sample_hevc_session)"
  by (simp add: hevc_create_decoder_def sample_de265_def sample_heap_def malloc_def
      sample_hevc_session_def fun_eq_iff)

lemma sample_hevc_destroy:
  "hevc_destroy 4096 sample_hevc_session = Inr sample_hevc_destroyed"
  by (simp add: hevc_destroy_def free_def sample_hevc_session_def sample_hevc_destroyed_def
      fun_eq_iff)

section \<open>Chroma dimensions and plane sizes as numbers\<close>

lemma av1_chroma_dims_spec:
  assumes "0 < sint w" "sint w < 2 ^ 31 - 1" "0 < sint h" "sint h < 2 ^ 31 - 1"
    and "layout \<noteq> DAV1D_PIXEL_LAYOUT_I400"
  shows "map_prod sint sint (av1_chroma_dims w h layout) =
     spec_chroma_dims (sint (layout_to_format layout)) (sint w) (sint h)"
  using assms
  by (cases layout)
     (simp_all add: av1_chroma_dims_def layout_to_format_def spec_chroma_dims_def c_div_half)

lemma hevc_chroma_dims_spec:
  assumes "0 < sint w" "sint w < 2 ^ 31 - 1" "0 < sint h" "sint h < 2 ^ 31 - 1"
    and "chroma \<noteq> de265_chroma_mono"
  shows "map_prod sint sint (hevc_chroma_dims w h chroma) =
     spec_chroma_dims (sint (chroma_to_format chroma)) (sint w) (sint h)"
  using assms
  by (cases chroma)
     (simp_all add: hevc_chroma_dims_def chroma_to_format_def spec_chroma_dims_def c_div_half)

lemma vp9_chroma_dims_spec:
  assumes "0 < sint w" "sint w < 2 ^ 31 - 1" "0 < sint h" "sint h < 2 ^ 31 - 1"
  shows "map_prod sint sint (vp9_chroma_dims w h (vpx_fmt_to_chroma K f)) =
     spec_chroma_dims (sint (vpx_fmt_to_chroma K f)) (sint w) (sint h)"
  using assms
  by (simp add: vp9_chroma_dims_def vpx_fmt_to_chroma_def spec_chroma_dims_def c_div_half)

text \<open>
  The sizes a record states, as numbers: with sound geometry the luma size is
  \<open>width * height * bytesPerSample\<close>, and for every picture but a monochrome one the
  chroma size is \<open>chromaW * chromaH * bytesPerSample\<close> with the chroma dimensions of the
  specification for the chroma format the record states.
\<close>

lemma sint_sizes:
  assumes g: "geometry_ok w h bpc"
    and cw: "0 < sint cw" "sint cw \<le> sint w" and ch: "0 < sint ch" "sint ch \<le> sint h"
  shows "sint (w * h * bytes_per_sample bpc) = sint w * sint h * sint (bytes_per_sample bpc)"
    and "sint (cw * ch * bytes_per_sample bpc) = sint cw * sint ch * sint (bytes_per_sample bpc)"
proof -
  let ?b = "sint (bytes_per_sample bpc)"
  note G = geometry_okD [OF g]
  show "sint (w * h * bytes_per_sample bpc) = sint w * sint h * ?b"
    using G by (intro sint_mult3(1)) simp_all
  have "sint cw * sint ch \<le> sint w * sint h"
    using cw ch by (intro mult_mono) simp_all
  then have "sint cw * sint ch * ?b \<le> sint w * sint h * ?b"
    using G(5) by (intro mult_right_mono) simp_all
  with G(6) have "sint cw * sint ch * ?b < 2 ^ 31" by linarith
  then show "sint (cw * ch * bytes_per_sample bpc) = sint cw * sint ch * ?b"
    using cw ch G(5) by (intro sint_mult3(1)) simp_all
qed

lemma av1_record_sizes:
  assumes g: "geometry_ok (p_w pic) (p_h pic) (p_bpc pic)"
    and l: "p_layout pic \<noteq> DAV1D_PIXEL_LAYOUT_I400"
  defines "f \<equiv> av1_frame_header pic"
  shows "sint (ySize f) = sint (width f) * sint (height f) * sint (bytes_per_sample (bitDepth f))"
    and "sint (uvSize f) =
      fst (spec_chroma_dims (sint (chromaFormat f)) (sint (width f)) (sint (height f)))
      * snd (spec_chroma_dims (sint (chromaFormat f)) (sint (width f)) (sint (height f)))
      * sint (bytes_per_sample (bitDepth f))"
proof -
  define cd where "cd = av1_chroma_dims (p_w pic) (p_h pic) (p_layout pic)"
  note G = geometry_okD [OF g]
  have rng: "0 < sint (fst cd) \<and> sint (fst cd) \<le> sint (p_w pic)
      \<and> 0 < sint (snd cd) \<and> sint (snd cd) \<le> sint (p_h pic)"
    using av1_chroma_dims_range [OF g, of "p_layout pic" "fst cd" "snd cd"] by (simp add: cd_def)
  have sp: "map_prod sint sint cd =
      spec_chroma_dims (sint (layout_to_format (p_layout pic))) (sint (p_w pic)) (sint (p_h pic))"
    unfolding cd_def using G l by (intro av1_chroma_dims_spec) simp_all
  have fs: "sint (fst cd) = fst (map_prod sint sint cd)" "sint (snd cd) = snd (map_prod sint sint cd)"
    by (simp_all add: map_prod_def split_beta)
  show "sint (ySize f) = sint (width f) * sint (height f) * sint (bytes_per_sample (bitDepth f))"
    using sint_sizes(1) [OF g, of "fst cd" "snd cd"] rng
    by (simp add: f_def av1_frame_header_def Let_def)
  show "sint (uvSize f) =
      fst (spec_chroma_dims (sint (chromaFormat f)) (sint (width f)) (sint (height f)))
      * snd (spec_chroma_dims (sint (chromaFormat f)) (sint (width f)) (sint (height f)))
      * sint (bytes_per_sample (bitDepth f))"
    using sint_sizes(2) [OF g, of "fst cd" "snd cd"] rng
    by (simp add: f_def av1_frame_header_def Let_def cd_def [symmetric] fs sp)
qed

lemma hevc_record_sizes:
  assumes g: "geometry_ok (de265_get_image_width img 0) (de265_get_image_height img 0)
      (de265_get_bits_per_pixel img 0)"
    and l: "de265_get_chroma_format img \<noteq> de265_chroma_mono"
  defines "f \<equiv> hevc_frame_header img"
  shows "sint (ySize f) = sint (width f) * sint (height f) * sint (bytes_per_sample (bitDepth f))"
    and "sint (uvSize f) =
      fst (spec_chroma_dims (sint (chromaFormat f)) (sint (width f)) (sint (height f)))
      * snd (spec_chroma_dims (sint (chromaFormat f)) (sint (width f)) (sint (height f)))
      * sint (bytes_per_sample (bitDepth f))"
proof -
  define cd where "cd = hevc_chroma_dims (de265_get_image_width img 0)
      (de265_get_image_height img 0) (de265_get_chroma_format img)"
  note G = geometry_okD [OF g]
  have rng: "0 < sint (fst cd) \<and> sint (fst cd) \<le> sint (de265_get_image_width img 0)
      \<and> 0 < sint (snd cd) \<and> sint (snd cd) \<le> sint (de265_get_image_height img 0)"
    using hevc_chroma_dims_range [OF g, of "de265_get_chroma_format img" "fst cd" "snd cd"]
    by (simp add: cd_def)
  have sp: "map_prod sint sint cd =
      spec_chroma_dims (sint (chroma_to_format (de265_get_chroma_format img)))
        (sint (de265_get_image_width img 0)) (sint (de265_get_image_height img 0))"
    unfolding cd_def using G l by (intro hevc_chroma_dims_spec) simp_all
  have fs: "sint (fst cd) = fst (map_prod sint sint cd)" "sint (snd cd) = snd (map_prod sint sint cd)"
    by (simp_all add: map_prod_def split_beta)
  show "sint (ySize f) = sint (width f) * sint (height f) * sint (bytes_per_sample (bitDepth f))"
    using sint_sizes(1) [OF g, of "fst cd" "snd cd"] rng
    by (simp add: f_def hevc_frame_header_def Let_def)
  show "sint (uvSize f) =
      fst (spec_chroma_dims (sint (chromaFormat f)) (sint (width f)) (sint (height f)))
      * snd (spec_chroma_dims (sint (chromaFormat f)) (sint (width f)) (sint (height f)))
      * sint (bytes_per_sample (bitDepth f))"
    using sint_sizes(2) [OF g, of "fst cd" "snd cd"] rng
    by (simp add: f_def hevc_frame_header_def Let_def cd_def [symmetric] fs sp)
qed

lemma vp9_record_sizes:
  assumes g: "geometry_ok (d_w img) (d_h img) (vpx_fmt_bpc K (fmt img))"
  defines "f \<equiv> vp9_frame_header K img"
  shows "sint (ySize f) = sint (width f) * sint (height f) * sint (bytes_per_sample (bitDepth f))"
    and "sint (uvSize f) =
      fst (spec_chroma_dims (sint (chromaFormat f)) (sint (width f)) (sint (height f)))
      * snd (spec_chroma_dims (sint (chromaFormat f)) (sint (width f)) (sint (height f)))
      * sint (bytes_per_sample (bitDepth f))"
proof -
  define cd where "cd = vp9_chroma_dims (d_w img) (d_h img) (vpx_fmt_to_chroma K (fmt img))"
  note G = geometry_okD [OF g]
  have rng: "0 < sint (fst cd) \<and> sint (fst cd) \<le> sint (d_w img)
      \<and> 0 < sint (snd cd) \<and> sint (snd cd) \<le> sint (d_h img)"
    using vp9_chroma_dims_range [OF g, of "vpx_fmt_to_chroma K (fmt img)" "fst cd" "snd cd"]
    by (simp add: cd_def)
  have sp: "map_prod sint sint cd =
      spec_chroma_dims (sint (vpx_fmt_to_chroma K (fmt img))) (sint (d_w img)) (sint (d_h img))"
    unfolding cd_def using G by (intro vp9_chroma_dims_spec) simp_all
  have fs: "sint (fst cd) = fst (map_prod sint sint cd)" "sint (snd cd) = snd (map_prod sint sint cd)"
    by (simp_all add: map_prod_def split_beta)
  show "sint (ySize f) = sint (width f) * sint (height f) * sint (bytes_per_sample (bitDepth f))"
    using sint_sizes(1) [OF g, of "fst cd" "snd cd"] rng
    by (simp add: f_def vp9_frame_header_def Let_def)
  show "sint (uvSize f) =
      fst (spec_chroma_dims (sint (chromaFormat f)) (sint (width f)) (sint (height f)))
      * snd (spec_chroma_dims (sint (chromaFormat f)) (sint (width f)) (sint (height f)))
      * sint (bytes_per_sample (bitDepth f))"
    using sint_sizes(2) [OF g, of "fst cd" "snd cd"] rng
    by (simp add: f_def vp9_frame_header_def Let_def cd_def [symmetric] fs sp)
qed

section \<open>The claims\<close>

text \<open>
  C1. The subsampling of a picture is what the library reports of it: the pixel layout
  of a dav1d picture, the chroma enumerator of a libde265 image, the format code of a
  libvpx image. With positive luma dimensions below \<open>INT_MAX\<close>, each extractor computes,
  for a picture reported as 420, the chroma plane dimensions \<open>ceil(w/2) x ceil(h/2)\<close>, for
  one reported as 422 \<open>ceil(w/2) x h\<close>, and for one reported as 444 \<open>w x h\<close>, and stores
  that subsampling as the chroma format of the record. For libvpx the 444 formats are
  \<open>I444\<close> and \<open>I44416\<close>, the 422 formats \<open>I422\<close> and \<open>I42216\<close>, and every other format,
  among them \<open>I420\<close> (\<open>0x102\<close>) and \<open>I42016\<close> (\<open>0x902\<close>), is taken as 420. The three
  extractors compute one function of width, height and subsampling, the
  specification's. A monochrome dav1d picture (layout \<open>I400\<close>) is reported as none of
  the three; C3 evaluates the extractor on one.
\<close>

theorem chroma_dims_by_subsampling:
  assumes "0 < sint w" "sint w < 2 ^ 31 - 1" "0 < sint h" "sint h < 2 ^ 31 - 1"
  shows "layout_to_format DAV1D_PIXEL_LAYOUT_I420 = 420
     \<and> map_prod sint sint (av1_chroma_dims w h DAV1D_PIXEL_LAYOUT_I420) =
          spec_chroma_dims 420 (sint w) (sint h)
     \<and> chroma_to_format de265_chroma_420 = 420
     \<and> map_prod sint sint (hevc_chroma_dims w h de265_chroma_420) =
          spec_chroma_dims 420 (sint w) (sint h)
     \<and> (f \<noteq> VPX_IMG_FMT_I444 K \<and> f \<noteq> VPX_IMG_FMT_I44416 K
          \<and> f \<noteq> VPX_IMG_FMT_I422 K \<and> f \<noteq> VPX_IMG_FMT_I42216 K \<longrightarrow>
          vpx_fmt_to_chroma K f = 420
          \<and> map_prod sint sint (vp9_chroma_dims w h (vpx_fmt_to_chroma K f)) =
               spec_chroma_dims 420 (sint w) (sint h))
     \<and> map_prod sint sint (vp9_chroma_dims w h (vpx_fmt_to_chroma libvpx_img_fmt 0x102)) =
          spec_chroma_dims 420 (sint w) (sint h)
     \<and> map_prod sint sint (vp9_chroma_dims w h (vpx_fmt_to_chroma libvpx_img_fmt 0x902)) =
          spec_chroma_dims 420 (sint w) (sint h)
     \<and> layout_to_format DAV1D_PIXEL_LAYOUT_I422 = 422
     \<and> map_prod sint sint (av1_chroma_dims w h DAV1D_PIXEL_LAYOUT_I422) =
          spec_chroma_dims 422 (sint w) (sint h)
     \<and> chroma_to_format de265_chroma_422 = 422
     \<and> map_prod sint sint (hevc_chroma_dims w h de265_chroma_422) =
          spec_chroma_dims 422 (sint w) (sint h)
     \<and> ((f = VPX_IMG_FMT_I422 K \<or> f = VPX_IMG_FMT_I42216 K)
          \<and> f \<noteq> VPX_IMG_FMT_I444 K \<and> f \<noteq> VPX_IMG_FMT_I44416 K \<longrightarrow>
          vpx_fmt_to_chroma K f = 422
          \<and> map_prod sint sint (vp9_chroma_dims w h (vpx_fmt_to_chroma K f)) =
               spec_chroma_dims 422 (sint w) (sint h))
     \<and> layout_to_format DAV1D_PIXEL_LAYOUT_I444 = 444
     \<and> map_prod sint sint (av1_chroma_dims w h DAV1D_PIXEL_LAYOUT_I444) =
          spec_chroma_dims 444 (sint w) (sint h)
     \<and> chroma_to_format de265_chroma_444 = 444
     \<and> map_prod sint sint (hevc_chroma_dims w h de265_chroma_444) =
          spec_chroma_dims 444 (sint w) (sint h)
     \<and> (f = VPX_IMG_FMT_I444 K \<or> f = VPX_IMG_FMT_I44416 K \<longrightarrow>
          vpx_fmt_to_chroma K f = 444
          \<and> map_prod sint sint (vp9_chroma_dims w h (vpx_fmt_to_chroma K f)) =
               spec_chroma_dims 444 (sint w) (sint h))
     \<and> spec_chroma_dims 420 (sint w) (sint h) = (ceil_half (sint w), ceil_half (sint h))
     \<and> spec_chroma_dims 422 (sint w) (sint h) = (ceil_half (sint w), sint h)
     \<and> spec_chroma_dims 444 (sint w) (sint h) = (sint w, sint h)"
proof -
  have av1: "layout_to_format DAV1D_PIXEL_LAYOUT_I420 = 420"
    "layout_to_format DAV1D_PIXEL_LAYOUT_I422 = 422"
    "layout_to_format DAV1D_PIXEL_LAYOUT_I444 = 444"
    "map_prod sint sint (av1_chroma_dims w h DAV1D_PIXEL_LAYOUT_I420) =
       spec_chroma_dims 420 (sint w) (sint h)"
    "map_prod sint sint (av1_chroma_dims w h DAV1D_PIXEL_LAYOUT_I422) =
       spec_chroma_dims 422 (sint w) (sint h)"
    "map_prod sint sint (av1_chroma_dims w h DAV1D_PIXEL_LAYOUT_I444) =
       spec_chroma_dims 444 (sint w) (sint h)"
    using assms
    by (simp_all add: av1_chroma_dims_def layout_to_format_def spec_chroma_dims_def c_div_half)
  have hevc: "chroma_to_format de265_chroma_420 = 420"
    "chroma_to_format de265_chroma_422 = 422"
    "chroma_to_format de265_chroma_444 = 444"
    "map_prod sint sint (hevc_chroma_dims w h de265_chroma_420) =
       spec_chroma_dims 420 (sint w) (sint h)"
    "map_prod sint sint (hevc_chroma_dims w h de265_chroma_422) =
       spec_chroma_dims 422 (sint w) (sint h)"
    "map_prod sint sint (hevc_chroma_dims w h de265_chroma_444) =
       spec_chroma_dims 444 (sint w) (sint h)"
    using assms
    by (simp_all add: hevc_chroma_dims_def chroma_to_format_def spec_chroma_dims_def c_div_half)
  have dims: "map_prod sint sint (vp9_chroma_dims w h 420) = spec_chroma_dims 420 (sint w) (sint h)"
    "map_prod sint sint (vp9_chroma_dims w h 422) = spec_chroma_dims 422 (sint w) (sint h)"
    "map_prod sint sint (vp9_chroma_dims w h 444) = spec_chroma_dims 444 (sint w) (sint h)"
    using assms by (simp_all add: vp9_chroma_dims_def spec_chroma_dims_def c_div_half)
  have c420: "f \<noteq> VPX_IMG_FMT_I444 K \<and> f \<noteq> VPX_IMG_FMT_I44416 K
      \<and> f \<noteq> VPX_IMG_FMT_I422 K \<and> f \<noteq> VPX_IMG_FMT_I42216 K \<longrightarrow>
      vpx_fmt_to_chroma K f = 420"
    by (simp add: vpx_fmt_to_chroma_def)
  have c422: "(f = VPX_IMG_FMT_I422 K \<or> f = VPX_IMG_FMT_I42216 K)
      \<and> f \<noteq> VPX_IMG_FMT_I444 K \<and> f \<noteq> VPX_IMG_FMT_I44416 K \<longrightarrow>
      vpx_fmt_to_chroma K f = 422"
    by (auto simp: vpx_fmt_to_chroma_def)
  have c444: "f = VPX_IMG_FMT_I444 K \<or> f = VPX_IMG_FMT_I44416 K \<longrightarrow>
      vpx_fmt_to_chroma K f = 444"
    by (simp add: vpx_fmt_to_chroma_def)
  have lib: "vpx_fmt_to_chroma libvpx_img_fmt 0x102 = 420"
    "vpx_fmt_to_chroma libvpx_img_fmt 0x902 = 420"
    by (simp_all add: vpx_fmt_to_chroma_def libvpx_img_fmt_def)
  have spec: "spec_chroma_dims 420 (sint w) (sint h) = (ceil_half (sint w), ceil_half (sint h))"
    "spec_chroma_dims 422 (sint w) (sint h) = (ceil_half (sint w), sint h)"
    "spec_chroma_dims 444 (sint w) (sint h) = (sint w, sint h)"
    by (simp_all add: spec_chroma_dims_def)
  have v420: "f \<noteq> VPX_IMG_FMT_I444 K \<and> f \<noteq> VPX_IMG_FMT_I44416 K
      \<and> f \<noteq> VPX_IMG_FMT_I422 K \<and> f \<noteq> VPX_IMG_FMT_I42216 K \<longrightarrow>
      vpx_fmt_to_chroma K f = 420
      \<and> map_prod sint sint (vp9_chroma_dims w h (vpx_fmt_to_chroma K f)) =
           spec_chroma_dims 420 (sint w) (sint h)"
    using c420 dims(1) by simp
  have v422: "(f = VPX_IMG_FMT_I422 K \<or> f = VPX_IMG_FMT_I42216 K)
      \<and> f \<noteq> VPX_IMG_FMT_I444 K \<and> f \<noteq> VPX_IMG_FMT_I44416 K \<longrightarrow>
      vpx_fmt_to_chroma K f = 422
      \<and> map_prod sint sint (vp9_chroma_dims w h (vpx_fmt_to_chroma K f)) =
           spec_chroma_dims 422 (sint w) (sint h)"
    using c422 dims(2) by simp
  have v444: "f = VPX_IMG_FMT_I444 K \<or> f = VPX_IMG_FMT_I44416 K \<longrightarrow>
      vpx_fmt_to_chroma K f = 444
      \<and> map_prod sint sint (vp9_chroma_dims w h (vpx_fmt_to_chroma K f)) =
           spec_chroma_dims 444 (sint w) (sint h)"
    using c444 dims(3) by simp
  have l420: "map_prod sint sint (vp9_chroma_dims w h (vpx_fmt_to_chroma libvpx_img_fmt 0x102)) =
      spec_chroma_dims 420 (sint w) (sint h)"
    "map_prod sint sint (vp9_chroma_dims w h (vpx_fmt_to_chroma libvpx_img_fmt 0x902)) =
      spec_chroma_dims 420 (sint w) (sint h)"
    unfolding lib by (rule dims(1))+
  from av1 hevc v420 v422 v444 l420 spec show ?thesis by blast
qed

theorem chroma_dims_by_subsampling_witness:
  "map_prod sint sint (av1_chroma_dims 3 2 DAV1D_PIXEL_LAYOUT_I420) = (2, 1)
   \<and> map_prod sint sint (av1_chroma_dims 3 2 DAV1D_PIXEL_LAYOUT_I422) = (2, 2)
   \<and> map_prod sint sint (av1_chroma_dims 3 2 DAV1D_PIXEL_LAYOUT_I444) = (3, 2)
   \<and> map_prod sint sint (hevc_chroma_dims 3 2 de265_chroma_420) = (2, 1)
   \<and> map_prod sint sint (hevc_chroma_dims 3 2 de265_chroma_422) = (2, 2)
   \<and> map_prod sint sint (hevc_chroma_dims 3 2 de265_chroma_444) = (3, 2)
   \<and> vpx_fmt_to_chroma libvpx_img_fmt 0x102 = 420
   \<and> map_prod sint sint (vp9_chroma_dims 3 2 (vpx_fmt_to_chroma libvpx_img_fmt 0x102)) = (2, 1)
   \<and> vpx_fmt_to_chroma libvpx_img_fmt 0x105 = 422
   \<and> map_prod sint sint (vp9_chroma_dims 3 2 (vpx_fmt_to_chroma libvpx_img_fmt 0x105)) = (2, 2)
   \<and> vpx_fmt_to_chroma libvpx_img_fmt 0x106 = 444
   \<and> map_prod sint sint (vp9_chroma_dims 3 2 (vpx_fmt_to_chroma libvpx_img_fmt 0x106)) = (3, 2)"
proof -
  have h: "0 < sint (3 :: int32)" "sint (3 :: int32) < 2 ^ 31 - 1"
    "0 < sint (2 :: int32)" "sint (2 :: int32) < 2 ^ 31 - 1" by simp_all
  have s: "spec_chroma_dims 420 3 2 = (2, 1)" "spec_chroma_dims 422 3 2 = (2, 2)"
    "spec_chroma_dims 444 3 2 = (3, 2)"
    by (simp_all add: spec_chroma_dims_def ceil_half_div)
  have f420: "(0x102 :: int32) \<noteq> VPX_IMG_FMT_I444 libvpx_img_fmt
      \<and> (0x102 :: int32) \<noteq> VPX_IMG_FMT_I44416 libvpx_img_fmt
      \<and> (0x102 :: int32) \<noteq> VPX_IMG_FMT_I422 libvpx_img_fmt
      \<and> (0x102 :: int32) \<noteq> VPX_IMG_FMT_I42216 libvpx_img_fmt"
    by (simp add: libvpx_img_fmt_def)
  have f422: "((0x105 :: int32) = VPX_IMG_FMT_I422 libvpx_img_fmt
        \<or> (0x105 :: int32) = VPX_IMG_FMT_I42216 libvpx_img_fmt)
      \<and> (0x105 :: int32) \<noteq> VPX_IMG_FMT_I444 libvpx_img_fmt
      \<and> (0x105 :: int32) \<noteq> VPX_IMG_FMT_I44416 libvpx_img_fmt"
    by (simp add: libvpx_img_fmt_def)
  have f444: "(0x106 :: int32) = VPX_IMG_FMT_I444 libvpx_img_fmt
      \<or> (0x106 :: int32) = VPX_IMG_FMT_I44416 libvpx_img_fmt"
    by (simp add: libvpx_img_fmt_def)
  note t420 = chroma_dims_by_subsampling [OF h, where f = "0x102" and K = libvpx_img_fmt]
  note t422 = chroma_dims_by_subsampling [OF h, where f = "0x105" and K = libvpx_img_fmt]
  note t444 = chroma_dims_by_subsampling [OF h, where f = "0x106" and K = libvpx_img_fmt]
  have a: "map_prod sint sint (av1_chroma_dims 3 2 DAV1D_PIXEL_LAYOUT_I420) = (2, 1)"
    "map_prod sint sint (av1_chroma_dims 3 2 DAV1D_PIXEL_LAYOUT_I422) = (2, 2)"
    "map_prod sint sint (av1_chroma_dims 3 2 DAV1D_PIXEL_LAYOUT_I444) = (3, 2)"
    "map_prod sint sint (hevc_chroma_dims 3 2 de265_chroma_420) = (2, 1)"
    "map_prod sint sint (hevc_chroma_dims 3 2 de265_chroma_422) = (2, 2)"
    "map_prod sint sint (hevc_chroma_dims 3 2 de265_chroma_444) = (3, 2)"
    using t420 s by simp_all
  from t420 f420 have b: "vpx_fmt_to_chroma libvpx_img_fmt 0x102 = 420
      \<and> map_prod sint sint (vp9_chroma_dims 3 2 (vpx_fmt_to_chroma libvpx_img_fmt 0x102)) =
           spec_chroma_dims 420 (sint (3 :: int32)) (sint (2 :: int32))"
    by blast
  from t422 f422 have c: "vpx_fmt_to_chroma libvpx_img_fmt 0x105 = 422
      \<and> map_prod sint sint (vp9_chroma_dims 3 2 (vpx_fmt_to_chroma libvpx_img_fmt 0x105)) =
           spec_chroma_dims 422 (sint (3 :: int32)) (sint (2 :: int32))"
    by blast
  from t444 f444 have d: "vpx_fmt_to_chroma libvpx_img_fmt 0x106 = 444
      \<and> map_prod sint sint (vp9_chroma_dims 3 2 (vpx_fmt_to_chroma libvpx_img_fmt 0x106)) =
           spec_chroma_dims 444 (sint (3 :: int32)) (sint (2 :: int32))"
    by blast
  have e: "spec_chroma_dims 420 (sint (3 :: int32)) (sint (2 :: int32)) = (2, 1)"
    "spec_chroma_dims 422 (sint (3 :: int32)) (sint (2 :: int32)) = (2, 2)"
    "spec_chroma_dims 444 (sint (3 :: int32)) (sint (2 :: int32)) = (3, 2)"
    using s by simp_all
  from a b c d show ?thesis unfolding e by blast
qed

text \<open>
  C2. Whenever an extractor returns a record for a picture of sound geometry, each of the
  three plane buffers holds exactly rows times row-bytes bytes, and its row \<open>r\<close>, at
  offset \<open>r\<close> times row-bytes, is the first row-bytes bytes of row \<open>r\<close> of the library's
  plane read at the library's stride: \<open>height\<close> rows of \<open>width * bytesPerSample\<close> bytes
  for luma, \<open>chromaH\<close> rows of \<open>chromaW * bytesPerSample\<close> bytes for each chroma plane.
  No condition on the stride is needed.
\<close>

theorem planes_copied_row_by_row:
  "(av1_extract_picture m (Some pic) sa = Inr (toka, ta) \<and> toka \<noteq> 0
      \<and> geometry_ok (p_w pic) (p_h pic) (p_bpc pic) \<longrightarrow>
      (\<exists>f. blocks ta toka = Some (Frame f) \<and>
         plane_copied ta (yPtr f) m (pic_data pic 0) (pic_stride pic 0)
           (row_bytes (p_w pic) (p_bpc pic)) (nat (sint (p_h pic))) \<and>
         plane_copied ta (uPtr f) m (pic_data pic 1) (pic_stride pic 1)
           (row_bytes (fst (av1_chroma_dims (p_w pic) (p_h pic) (p_layout pic))) (p_bpc pic))
           (nat (sint (snd (av1_chroma_dims (p_w pic) (p_h pic) (p_layout pic))))) \<and>
         plane_copied ta (vPtr f) m (pic_data pic 2) (pic_stride pic 1)
           (row_bytes (fst (av1_chroma_dims (p_w pic) (p_h pic) (p_layout pic))) (p_bpc pic))
           (nat (sint (snd (av1_chroma_dims (p_w pic) (p_h pic) (p_layout pic)))))))
   \<and> (hevc_extract_picture m (Some img) sh = Inr (tokh, th) \<and> tokh \<noteq> 0
      \<and> geometry_ok (de265_get_image_width img 0) (de265_get_image_height img 0)
            (de265_get_bits_per_pixel img 0) \<longrightarrow>
      (\<exists>f. blocks th tokh = Some (Frame f) \<and>
         plane_copied th (yPtr f) m (fst (de265_get_image_plane img 0))
           (snd (de265_get_image_plane img 0))
           (row_bytes (de265_get_image_width img 0) (de265_get_bits_per_pixel img 0))
           (nat (sint (de265_get_image_height img 0))) \<and>
         plane_copied th (uPtr f) m (fst (de265_get_image_plane img 1))
           (snd (de265_get_image_plane img 1))
           (row_bytes (fst (hevc_chroma_dims (de265_get_image_width img 0)
              (de265_get_image_height img 0) (de265_get_chroma_format img)))
              (de265_get_bits_per_pixel img 0))
           (nat (sint (snd (hevc_chroma_dims (de265_get_image_width img 0)
              (de265_get_image_height img 0) (de265_get_chroma_format img))))) \<and>
         plane_copied th (vPtr f) m (fst (de265_get_image_plane img 2))
           (snd (de265_get_image_plane img 2))
           (row_bytes (fst (hevc_chroma_dims (de265_get_image_width img 0)
              (de265_get_image_height img 0) (de265_get_chroma_format img)))
              (de265_get_bits_per_pixel img 0))
           (nat (sint (snd (hevc_chroma_dims (de265_get_image_width img 0)
              (de265_get_image_height img 0) (de265_get_chroma_format img)))))))
   \<and> (vp9_extract_image K m (Some vimg) sv = Inr (tokv, tv) \<and> tokv \<noteq> 0
      \<and> geometry_ok (d_w vimg) (d_h vimg) (vpx_fmt_bpc K (fmt vimg)) \<longrightarrow>
      (\<exists>f. blocks tv tokv = Some (Frame f) \<and>
         plane_copied tv (yPtr f) m (planes vimg 0) (img_stride vimg 0)
           (row_bytes (d_w vimg) (vpx_fmt_bpc K (fmt vimg))) (nat (sint (d_h vimg))) \<and>
         plane_copied tv (uPtr f) m (planes vimg 1) (img_stride vimg 1)
           (row_bytes (fst (vp9_chroma_dims (d_w vimg) (d_h vimg)
              (vpx_fmt_to_chroma K (fmt vimg)))) (vpx_fmt_bpc K (fmt vimg)))
           (nat (sint (snd (vp9_chroma_dims (d_w vimg) (d_h vimg)
              (vpx_fmt_to_chroma K (fmt vimg)))))) \<and>
         plane_copied tv (vPtr f) m (planes vimg 2) (img_stride vimg 2)
           (row_bytes (fst (vp9_chroma_dims (d_w vimg) (d_h vimg)
              (vpx_fmt_to_chroma K (fmt vimg)))) (vpx_fmt_bpc K (fmt vimg)))
           (nat (sint (snd (vp9_chroma_dims (d_w vimg) (d_h vimg)
              (vpx_fmt_to_chroma K (fmt vimg))))))))"
proof (intro conjI impI; elim conjE)
  assume "av1_extract_picture m (Some pic) sa = Inr (toka, ta)" "toka \<noteq> 0"
    "geometry_ok (p_w pic) (p_h pic) (p_bpc pic)"
  from av1_extract_planes [OF this]
  show "\<exists>f. blocks ta toka = Some (Frame f) \<and>
         plane_copied ta (yPtr f) m (pic_data pic 0) (pic_stride pic 0)
           (row_bytes (p_w pic) (p_bpc pic)) (nat (sint (p_h pic))) \<and>
         plane_copied ta (uPtr f) m (pic_data pic 1) (pic_stride pic 1)
           (row_bytes (fst (av1_chroma_dims (p_w pic) (p_h pic) (p_layout pic))) (p_bpc pic))
           (nat (sint (snd (av1_chroma_dims (p_w pic) (p_h pic) (p_layout pic))))) \<and>
         plane_copied ta (vPtr f) m (pic_data pic 2) (pic_stride pic 1)
           (row_bytes (fst (av1_chroma_dims (p_w pic) (p_h pic) (p_layout pic))) (p_bpc pic))
           (nat (sint (snd (av1_chroma_dims (p_w pic) (p_h pic) (p_layout pic)))))"
    by blast
next
  assume "hevc_extract_picture m (Some img) sh = Inr (tokh, th)" "tokh \<noteq> 0"
    "geometry_ok (de265_get_image_width img 0) (de265_get_image_height img 0)
            (de265_get_bits_per_pixel img 0)"
  from hevc_extract_planes [OF this]
  show "\<exists>f. blocks th tokh = Some (Frame f) \<and>
         plane_copied th (yPtr f) m (fst (de265_get_image_plane img 0))
           (snd (de265_get_image_plane img 0))
           (row_bytes (de265_get_image_width img 0) (de265_get_bits_per_pixel img 0))
           (nat (sint (de265_get_image_height img 0))) \<and>
         plane_copied th (uPtr f) m (fst (de265_get_image_plane img 1))
           (snd (de265_get_image_plane img 1))
           (row_bytes (fst (hevc_chroma_dims (de265_get_image_width img 0)
              (de265_get_image_height img 0) (de265_get_chroma_format img)))
              (de265_get_bits_per_pixel img 0))
           (nat (sint (snd (hevc_chroma_dims (de265_get_image_width img 0)
              (de265_get_image_height img 0) (de265_get_chroma_format img))))) \<and>
         plane_copied th (vPtr f) m (fst (de265_get_image_plane img 2))
           (snd (de265_get_image_plane img 2))
           (row_bytes (fst (hevc_chroma_dims (de265_get_image_width img 0)
              (de265_get_image_height img 0) (de265_get_chroma_format img)))
              (de265_get_bits_per_pixel img 0))
           (nat (sint (snd (hevc_chroma_dims (de265_get_image_width img 0)
              (de265_get_image_height img 0) (de265_get_chroma_format img)))))"
    by blast
next
  assume "vp9_extract_image K m (Some vimg) sv = Inr (tokv, tv)" "tokv \<noteq> 0"
    "geometry_ok (d_w vimg) (d_h vimg) (vpx_fmt_bpc K (fmt vimg))"
  from vp9_extract_planes [OF this]
  show "\<exists>f. blocks tv tokv = Some (Frame f) \<and>
         plane_copied tv (yPtr f) m (planes vimg 0) (img_stride vimg 0)
           (row_bytes (d_w vimg) (vpx_fmt_bpc K (fmt vimg))) (nat (sint (d_h vimg))) \<and>
         plane_copied tv (uPtr f) m (planes vimg 1) (img_stride vimg 1)
           (row_bytes (fst (vp9_chroma_dims (d_w vimg) (d_h vimg)
              (vpx_fmt_to_chroma K (fmt vimg)))) (vpx_fmt_bpc K (fmt vimg)))
           (nat (sint (snd (vp9_chroma_dims (d_w vimg) (d_h vimg)
              (vpx_fmt_to_chroma K (fmt vimg)))))) \<and>
         plane_copied tv (vPtr f) m (planes vimg 2) (img_stride vimg 2)
           (row_bytes (fst (vp9_chroma_dims (d_w vimg) (d_h vimg)
              (vpx_fmt_to_chroma K (fmt vimg)))) (vpx_fmt_bpc K (fmt vimg)))
           (nat (sint (snd (vp9_chroma_dims (d_w vimg) (d_h vimg)
              (vpx_fmt_to_chroma K (fmt vimg))))))"
    by blast
qed

theorem planes_copied_row_by_row_witness:
  "\<exists>tok t f. av1_extract_picture sample_memory (Some sample_picture) (sample_heap :: unit heap)
       = Inr (tok, t) \<and> tok \<noteq> 0 \<and> blocks t tok = Some (Frame f)
     \<and> blocks t (yPtr f) = Some (Bytes [0, 1, 2, 16, 17, 18])
     \<and> blocks t (uPtr f) = Some (Bytes [32, 33])
     \<and> blocks t (vPtr f) = Some (Bytes [64, 65])"
proof -
  have v: "pic_data sample_picture 0 \<noteq> 0" by (simp add: sample_picture_def)
  have g: "geometry_ok (p_w sample_picture) (p_h sample_picture) (p_bpc sample_picture)"
    using sample_geometry(1) by (simp add: sample_picture_def)
  from av1_extract_total [OF sample_allocs v g, of sample_memory]
  obtain tok and t :: "unit heap" where
    r: "av1_extract_picture sample_memory (Some sample_picture) sample_heap = Inr (tok, t)"
    and nz: "tok \<noteq> 0" by blast
  from planes_copied_row_by_row [where m = sample_memory and pic = sample_picture
      and sa = sample_heap and toka = tok and ta = t, THEN conjunct1] r nz g
  obtain f where f: "blocks t tok = Some (Frame f)"
    and y: "plane_copied t (yPtr f) sample_memory 256 16 3 2"
    and u: "plane_copied t (uPtr f) sample_memory 544 8 2 (Suc 0)"
    and w: "plane_copied t (vPtr f) sample_memory 832 8 2 (Suc 0)"
    by (auto simp: sample_picture_def sample_values1)
  from plane_copied_bytes [OF y] plane_copied_bytes [OF u] plane_copied_bytes [OF w] r nz f
  show ?thesis by (simp add: sample_values2 sample_values3)
qed

text \<open>
  C3. Evaluation of the AV1 extractor on a monochrome 2x2, 8-bit picture as dav1d
  delivers it (layout I400, no chroma planes). The record returned states chroma
  format 420 and a chroma plane size of 4 bytes, the full 2x2; the specification's
  formula for 420 gives \<open>ceil(2/2) * ceil(2/2) * 1 = 1\<close>.
\<close>

theorem av1_monochrome_record:
  "\<exists>tok t f. av1_extract_picture sample_memory (Some mono_picture) (sample_heap :: unit heap)
       = Inr (tok, t) \<and> tok \<noteq> 0 \<and> blocks t tok = Some (Frame f)
     \<and> width f = 2 \<and> height f = 2 \<and> bitDepth f = 8
     \<and> chromaFormat f = 420 \<and> uvSize f = 4
     \<and> fst (spec_chroma_dims 420 2 2) * snd (spec_chroma_dims 420 2 2) * 1 = 1"
proof -
  have v: "pic_data mono_picture 0 \<noteq> 0" by (simp add: mono_picture_def)
  have g: "geometry_ok (p_w mono_picture) (p_h mono_picture) (p_bpc mono_picture)"
    using sample_geometry(2) by (simp add: mono_picture_def)
  from av1_extract_total [OF sample_allocs v g, of sample_memory]
  obtain tok and t :: "unit heap" where
    r: "av1_extract_picture sample_memory (Some mono_picture) sample_heap = Inr (tok, t)"
    and nz: "tok \<noteq> 0" by blast
  from av1_extract_header [OF r nz] obtain f where f: "blocks t tok = Some (Frame f)"
    and h: "f\<lparr>yPtr := 0, uPtr := 0, vPtr := 0\<rparr> = av1_frame_header mono_picture"
    by auto
  have hdr: "av1_frame_header mono_picture =
      \<lparr>width = 2, height = 2, chromaFormat = 420, bitDepth = 8, yPtr = 0, uPtr = 0, vPtr = 0,
       ySize = 4, uvSize = 4\<rparr>"
    by (simp add: av1_frame_header_def mono_picture_def av1_chroma_dims_def
        layout_to_format_def bytes_per_sample_def)
  have "width f = width (f\<lparr>yPtr := 0, uPtr := 0, vPtr := 0\<rparr>)"
    "height f = height (f\<lparr>yPtr := 0, uPtr := 0, vPtr := 0\<rparr>)"
    "bitDepth f = bitDepth (f\<lparr>yPtr := 0, uPtr := 0, vPtr := 0\<rparr>)"
    "chromaFormat f = chromaFormat (f\<lparr>yPtr := 0, uPtr := 0, vPtr := 0\<rparr>)"
    "uvSize f = uvSize (f\<lparr>yPtr := 0, uPtr := 0, vPtr := 0\<rparr>)"
    by simp_all
  then have fields: "width f = 2" "height f = 2" "bitDepth f = 8" "chromaFormat f = 420"
    "uvSize f = 4"
    unfolding h hdr by simp_all
  have spec: "fst (spec_chroma_dims 420 2 2) * snd (spec_chroma_dims 420 2 2) * 1 = 1"
    by (simp add: spec_chroma_dims_def ceil_half_div)
  from r nz f fields spec show ?thesis by blast
qed

text \<open>
  C4. In each extractor: when the next four allocation requests do not all succeed, the
  result is the empty token and the live blocks are those of before (whatever was
  allocated has been freed); a non-empty token is returned only when all four succeeded,
  and names a record with all three plane pointers set; and when all four succeed on a
  valid picture of sound geometry, a token is returned whose record is complete: three
  live plane buffers of the recorded sizes.
\<close>

theorem extraction_all_or_nothing:
  "(\<not> allocs_succeed 4 sa \<longrightarrow>
      (\<exists>t. av1_extract_picture m pic_ptr sa = Inr (0, t) \<and> blocks t = blocks sa))
   \<and> (av1_extract_picture m pic_ptr sa = Inr (toka, ta) \<and> toka \<noteq> 0 \<longrightarrow>
      allocs_succeed 4 sa \<and>
      (\<exists>f. blocks ta toka = Some (Frame f) \<and> yPtr f \<noteq> 0 \<and> uPtr f \<noteq> 0 \<and> vPtr f \<noteq> 0))
   \<and> (allocs_succeed 4 sa \<and> pic_data pic 0 \<noteq> 0
        \<and> geometry_ok (p_w pic) (p_h pic) (p_bpc pic) \<longrightarrow>
      (\<exists>tok t. av1_extract_picture m (Some pic) sa = Inr (tok, t) \<and> tok \<noteq> 0
         \<and> record_complete t tok))
   \<and> (\<not> allocs_succeed 4 sh \<longrightarrow>
      (\<exists>t. hevc_extract_picture m img_ptr sh = Inr (0, t) \<and> blocks t = blocks sh))
   \<and> (hevc_extract_picture m img_ptr sh = Inr (tokh, th) \<and> tokh \<noteq> 0 \<longrightarrow>
      allocs_succeed 4 sh \<and>
      (\<exists>f. blocks th tokh = Some (Frame f) \<and> yPtr f \<noteq> 0 \<and> uPtr f \<noteq> 0 \<and> vPtr f \<noteq> 0))
   \<and> (allocs_succeed 4 sh \<and> fst (de265_get_image_plane img 0) \<noteq> 0
        \<and> fst (de265_get_image_plane img 1) \<noteq> 0 \<and> fst (de265_get_image_plane img 2) \<noteq> 0
        \<and> geometry_ok (de265_get_image_width img 0) (de265_get_image_height img 0)
             (de265_get_bits_per_pixel img 0) \<longrightarrow>
      (\<exists>tok t. hevc_extract_picture m (Some img) sh = Inr (tok, t) \<and> tok \<noteq> 0
         \<and> record_complete t tok))
   \<and> (\<not> allocs_succeed 4 sv \<longrightarrow>
      (\<exists>t. vp9_extract_image K m vimg_ptr sv = Inr (0, t) \<and> blocks t = blocks sv))
   \<and> (vp9_extract_image K m vimg_ptr sv = Inr (tokv, tv) \<and> tokv \<noteq> 0 \<longrightarrow>
      allocs_succeed 4 sv \<and>
      (\<exists>f. blocks tv tokv = Some (Frame f) \<and> yPtr f \<noteq> 0 \<and> uPtr f \<noteq> 0 \<and> vPtr f \<noteq> 0))
   \<and> (allocs_succeed 4 sv \<and> geometry_ok (d_w vimg) (d_h vimg) (vpx_fmt_bpc K (fmt vimg)) \<longrightarrow>
      (\<exists>tok t. vp9_extract_image K m (Some vimg) sv = Inr (tok, t) \<and> tok \<noteq> 0
         \<and> record_complete t tok))"
proof (intro conjI impI)
  assume "\<not> allocs_succeed 4 sa"
  then show "\<exists>t. av1_extract_picture m pic_ptr sa = Inr (0, t) \<and> blocks t = blocks sa"
    by (rule av1_extract_fails)
next
  assume a: "av1_extract_picture m pic_ptr sa = Inr (toka, ta) \<and> toka \<noteq> 0"
  from av1_extract_header [of m pic_ptr sa toka ta] a
  show "allocs_succeed 4 sa" by blast
  from av1_extract_header [of m pic_ptr sa toka ta] a
  show "\<exists>f. blocks ta toka = Some (Frame f) \<and> yPtr f \<noteq> 0 \<and> uPtr f \<noteq> 0 \<and> vPtr f \<noteq> 0"
    by blast
next
  assume "allocs_succeed 4 sa \<and> pic_data pic 0 \<noteq> 0
        \<and> geometry_ok (p_w pic) (p_h pic) (p_bpc pic)"
  then show "\<exists>tok t. av1_extract_picture m (Some pic) sa = Inr (tok, t) \<and> tok \<noteq> 0
         \<and> record_complete t tok"
    by (simp add: av1_extract_total)
next
  assume "\<not> allocs_succeed 4 sh"
  then show "\<exists>t. hevc_extract_picture m img_ptr sh = Inr (0, t) \<and> blocks t = blocks sh"
    by (rule hevc_extract_fails)
next
  assume a: "hevc_extract_picture m img_ptr sh = Inr (tokh, th) \<and> tokh \<noteq> 0"
  from hevc_extract_header [of m img_ptr sh tokh th] a
  show "allocs_succeed 4 sh" by blast
  from hevc_extract_header [of m img_ptr sh tokh th] a
  show "\<exists>f. blocks th tokh = Some (Frame f) \<and> yPtr f \<noteq> 0 \<and> uPtr f \<noteq> 0 \<and> vPtr f \<noteq> 0"
    by blast
next
  assume "allocs_succeed 4 sh \<and> fst (de265_get_image_plane img 0) \<noteq> 0
        \<and> fst (de265_get_image_plane img 1) \<noteq> 0 \<and> fst (de265_get_image_plane img 2) \<noteq> 0
        \<and> geometry_ok (de265_get_image_width img 0) (de265_get_image_height img 0)
             (de265_get_bits_per_pixel img 0)"
  then show "\<exists>tok t. hevc_extract_picture m (Some img) sh = Inr (tok, t) \<and> tok \<noteq> 0
         \<and> record_complete t tok"
    by (simp add: hevc_extract_total)
next
  assume "\<not> allocs_succeed 4 sv"
  then show "\<exists>t. vp9_extract_image K m vimg_ptr sv = Inr (0, t) \<and> blocks t = blocks sv"
    by (rule vp9_extract_fails)
next
  assume a: "vp9_extract_image K m vimg_ptr sv = Inr (tokv, tv) \<and> tokv \<noteq> 0"
  from vp9_extract_header [of K m vimg_ptr sv tokv tv] a
  show "allocs_succeed 4 sv" by blast
  from vp9_extract_header [of K m vimg_ptr sv tokv tv] a
  show "\<exists>f. blocks tv tokv = Some (Frame f) \<and> yPtr f \<noteq> 0 \<and> uPtr f \<noteq> 0 \<and> vPtr f \<noteq> 0"
    by blast
next
  assume "allocs_succeed 4 sv \<and> geometry_ok (d_w vimg) (d_h vimg) (vpx_fmt_bpc K (fmt vimg))"
  then show "\<exists>tok t. vp9_extract_image K m (Some vimg) sv = Inr (tok, t) \<and> tok \<noteq> 0
         \<and> record_complete t tok"
    by (simp add: vp9_extract_total)
qed

text \<open>The third allocation fails (the allocator answers 0): the two buffers already
  allocated are freed, no record is returned. With four good answers a complete record
  is returned.\<close>

theorem extraction_all_or_nothing_witness:
  "(\<exists>t. hevc_extract_picture sample_memory (Some sample_de265_image)
        ((sample_heap :: unit heap)\<lparr>answers := [4096, 8192, 0, 16384]\<rparr>) = Inr (0, t)
      \<and> blocks t = (\<lambda>a. None))
   \<and> (\<exists>tok t. hevc_extract_picture sample_memory (Some sample_de265_image)
        (sample_heap :: unit heap) = Inr (tok, t) \<and> tok \<noteq> 0 \<and> record_complete t tok)"
proof -
  let ?s = "(sample_heap :: unit heap)\<lparr>answers := [4096, 8192, 0, 16384]\<rparr>"
  have bad: "\<not> allocs_succeed 4 ?s" by (simp add: allocs_succeed_def sample_heap_def)
  have b: "blocks ?s = (\<lambda>a. None)" by (simp add: sample_heap_def)
  have v: "fst (de265_get_image_plane sample_de265_image 0) \<noteq> 0"
    "fst (de265_get_image_plane sample_de265_image 1) \<noteq> 0"
    "fst (de265_get_image_plane sample_de265_image 2) \<noteq> 0"
    by (simp_all add: sample_de265_image_def)
  have g: "geometry_ok (de265_get_image_width sample_de265_image 0)
      (de265_get_image_height sample_de265_image 0)
      (de265_get_bits_per_pixel sample_de265_image 0)"
    using sample_geometry(1) by (simp add: sample_de265_image_def)
  note T = extraction_all_or_nothing [where sh = ?s and m = sample_memory
      and img_ptr = "Some sample_de265_image",
      THEN conjunct2, THEN conjunct2, THEN conjunct2, THEN conjunct1, rule_format]
  note U = extraction_all_or_nothing [where sh = "sample_heap :: unit heap"
      and m = sample_memory and img = sample_de265_image,
      THEN conjunct2, THEN conjunct2, THEN conjunct2, THEN conjunct2, THEN conjunct2,
      THEN conjunct1, rule_format]
  from T [OF bad] b have 1: "\<exists>t. hevc_extract_picture sample_memory (Some sample_de265_image) ?s
      = Inr (0, t) \<and> blocks t = (\<lambda>a. None)"
    by simp
  from U sample_allocs [where 'd = unit] v g
  have 2: "\<exists>tok t. hevc_extract_picture sample_memory (Some sample_de265_image)
        (sample_heap :: unit heap) = Inr (tok, t) \<and> tok \<noteq> 0 \<and> record_complete t tok"
    by blast
  from 1 2 show ?thesis by blast
qed

text \<open>
  C5. Evaluation of the AV1 extractor on a 12-bit picture: the record returned states
  bit depth 12, the library's value, neither 8 nor 10.
\<close>

theorem av1_twelve_bit_record:
  "\<exists>tok t f. av1_extract_picture sample_memory (Some deep_picture) (sample_heap :: unit heap)
       = Inr (tok, t) \<and> tok \<noteq> 0 \<and> blocks t tok = Some (Frame f) \<and> bitDepth f = 12"
proof -
  have v: "pic_data deep_picture 0 \<noteq> 0" by (simp add: deep_picture_def sample_picture_def)
  have g: "geometry_ok (p_w deep_picture) (p_h deep_picture) (p_bpc deep_picture)"
    using sample_geometry(3) by (simp add: deep_picture_def sample_picture_def)
  from av1_extract_total [OF sample_allocs v g, of sample_memory]
  obtain tok and t :: "unit heap" where
    r: "av1_extract_picture sample_memory (Some deep_picture) sample_heap = Inr (tok, t)"
    and nz: "tok \<noteq> 0" by blast
  from av1_extract_header [OF r nz] obtain f where f: "blocks t tok = Some (Frame f)"
    and h: "f\<lparr>yPtr := 0, uPtr := 0, vPtr := 0\<rparr> = av1_frame_header deep_picture"
    by auto
  have "bitDepth f = bitDepth (f\<lparr>yPtr := 0, uPtr := 0, vPtr := 0\<rparr>)" by simp
  then have "bitDepth f = 12"
    unfolding h by (simp add: av1_frame_header_def Let_def deep_picture_def)
  with r nz f show ?thesis by blast
qed

text \<open>
  C6, as the code has it. A null token makes every operation of every adapter, and
  \<open>free_frame\<close>, return at once, with the empty token where there is a result and with
  the state unchanged. A non-null token that names no live block is not detected: apart
  from the AV1 and VP9 configure, which ignore their handle, every operation reads
  through it, which is undefined.
\<close>

theorem null_handle_is_noop:
  "av1_configure 0 config n sa = sa
   \<and> av1_decode La 0 d n k sa = Some (Inr (0, sa))
   \<and> av1_flush La 0 sa = Inr (0, sa)
   \<and> av1_destroy 0 sa = Inr sa
   \<and> hevc_configure Lh 0 config n sh = Inr sh
   \<and> hevc_decode Lh 0 d n k sh = Inr (0, sh)
   \<and> hevc_flush Lh 0 sh = Inr (0, sh)
   \<and> hevc_destroy 0 sh = Inr sh
   \<and> vp9_configure 0 config n sv = sv
   \<and> vp9_decode Lv 0 d n k sv = Inr (0, sv)
   \<and> vp9_flush Lv 0 sv = Inr (0, sv)
   \<and> vp9_destroy 0 sv = Inr sv
   \<and> free_frame 0 sa = Inr sa \<and> free_frame 0 sh = Inr sh \<and> free_frame 0 sv = Inr sv
   \<and> av1_configure h config n sa = sa \<and> vp9_configure h config n sv = sv
   \<and> (h \<noteq> 0 \<and> blocks sa h = None \<longrightarrow>
        av1_decode La h d n k sa = Some (Inl InvalidPointer)
        \<and> av1_flush La h sa = Inl InvalidPointer
        \<and> av1_destroy h sa = Inl InvalidPointer
        \<and> free_frame h sa = Inl InvalidPointer)
   \<and> (h \<noteq> 0 \<and> blocks sh h = None \<longrightarrow>
        hevc_configure Lh h config n sh = Inl InvalidPointer
        \<and> hevc_decode Lh h d n k sh = Inl InvalidPointer
        \<and> hevc_flush Lh h sh = Inl InvalidPointer
        \<and> hevc_destroy h sh = Inl InvalidPointer
        \<and> free_frame h sh = Inl InvalidPointer)
   \<and> (h \<noteq> 0 \<and> blocks sv h = None \<longrightarrow>
        vp9_decode Lv h d n k sv = Inl InvalidPointer
        \<and> vp9_flush Lv h sv = Inl InvalidPointer
        \<and> vp9_destroy h sv = Inl InvalidPointer
        \<and> free_frame h sv = Inl InvalidPointer)"
  by (simp add: av1_configure_def av1_decode_def av1_flush_def av1_destroy_def
      hevc_configure_def hevc_decode_def hevc_flush_def hevc_destroy_def
      vp9_configure_def vp9_decode_def vp9_flush_def vp9_destroy_def free_frame_def)

theorem null_handle_is_noop_witness:
  "hevc_flush sample_de265 0 sample_hevc_session = Inr (0, sample_hevc_session)
   \<and> av1_destroy 0 sample_av1_session = Inr sample_av1_session
   \<and> free_frame 0 sample_vp9_session = Inr sample_vp9_session
   \<and> vp9_decode sample_vpx 8192 (Some sample_chunk) 3 1 sample_vp9_session
       = Inl InvalidPointer"
proof -
  have f: "(8192 :: int32) \<noteq> 0 \<and> blocks sample_vp9_session 8192 = None"
    by (simp add: sample_vp9_session_def)
  note T = null_handle_is_noop [where sh = sample_hevc_session and Lh = sample_de265
      and sa = sample_av1_session and sv = sample_vp9_session and Lv = sample_vpx
      and h = 8192 and d = "Some sample_chunk" and n = 3 and k = 1]
  have 1: "hevc_flush sample_de265 0 sample_hevc_session = Inr (0, sample_hevc_session)"
    using T by blast
  have 2: "av1_destroy 0 sample_av1_session = Inr sample_av1_session"
    using T by blast
  have 3: "free_frame 0 sample_vp9_session = Inr sample_vp9_session"
    using T by blast
  have 4: "vp9_decode sample_vpx 8192 (Some sample_chunk) 3 1 sample_vp9_session
       = Inl InvalidPointer"
    using T f by blast
  from 1 2 3 4 show ?thesis by (intro conjI)
qed

text \<open>
  C6 as stated fails on a destroyed handle: create a session, destroy it, and call flush
  or destroy again with the same token. The call reads the freed session instead of
  returning the empty token and leaving the state alone.
\<close>

theorem destroyed_handle_is_undefined:
  "hevc_create_decoder sample_de265 sample_heap = Inr (4096, sample_hevc_session)
   \<and> hevc_destroy 4096 sample_hevc_session = Inr sample_hevc_destroyed
   \<and> hevc_flush sample_de265 4096 sample_hevc_destroyed = Inl InvalidPointer
   \<and> hevc_flush sample_de265 4096 sample_hevc_destroyed \<noteq> Inr (0, sample_hevc_destroyed)
   \<and> hevc_destroy 4096 sample_hevc_destroyed = Inl InvalidPointer"
proof -
  have 1: "hevc_flush sample_de265 4096 sample_hevc_destroyed = Inl InvalidPointer"
    by (simp add: hevc_flush_def sample_hevc_destroyed_def)
  have 2: "hevc_destroy 4096 sample_hevc_destroyed = Inl InvalidPointer"
    by (simp add: hevc_destroy_def sample_hevc_destroyed_def)
  from 1 have 3: "hevc_flush sample_de265 4096 sample_hevc_destroyed
      \<noteq> Inr (0, sample_hevc_destroyed)" by simp
  from sample_hevc_create sample_hevc_destroy 1 3 2 show ?thesis by (intro conjI)
qed

text \<open>
  C7. On a live session, decode called with a null data pointer or a length that is zero
  or negative returns the empty token and the state it was given, the session block and
  the library context in it included. The result is the same for every library: none of
  its functions has been called.
\<close>

theorem decode_rejects_empty_input:
  "(blocks sa h = Some (Dec da) \<and> (d = None \<or> sz \<le>s 0) \<longrightarrow>
      av1_decode La h d sz k sa = Some (Inr (0, sa)))
   \<and> (blocks sh h = Some (Dec dh) \<and> (d = None \<or> sz \<le>s 0) \<longrightarrow>
      hevc_decode Lh h d sz k sh = Inr (0, sh))
   \<and> (blocks sv h = Some (Dec dv) \<and> (d = None \<or> sz \<le>s 0) \<longrightarrow>
      vp9_decode Lv h d sz k sv = Inr (0, sv))"
  by (auto simp: av1_decode_def hevc_decode_def vp9_decode_def)

theorem decode_rejects_empty_input_witness:
  "hevc_decode sample_de265 4096 None 5 1 sample_hevc_session = Inr (0, sample_hevc_session)
   \<and> hevc_decode sample_de265 4096 (Some sample_chunk) 0 1 sample_hevc_session
       = Inr (0, sample_hevc_session)
   \<and> av1_decode sample_dav1d 4096 (Some sample_chunk) (- 1) 0 sample_av1_session
       = Some (Inr (0, sample_av1_session))
   \<and> vp9_decode sample_vpx 4096 None 0 0 sample_vp9_session = Inr (0, sample_vp9_session)"
proof -
  have a: "blocks sample_av1_session 4096 = Some (Dec \<lparr>av1_ctx = Some 0,
      av1_settings = \<lparr>n_threads = 1, max_frame_delay = 1\<rparr>\<rparr>)"
    by (simp add: sample_av1_session_def)
  have h: "blocks sample_hevc_session 4096 = Some (Dec \<lparr>hevc_ctx = Some 0\<rparr>)"
    by (simp add: sample_hevc_session_def)
  have v: "blocks sample_vp9_session 4096 = Some (Dec \<lparr>codec = 0, initialized = 1\<rparr>)"
    by (simp add: sample_vp9_session_def)
  have n: "(- 1 :: int32) \<le>s 0" "(0 :: int32) \<le>s 0" by simp_all
  note T = decode_rejects_empty_input
  from T [where sh = sample_hevc_session and h = 4096 and d = None and sz = 5 and k = 1
      and Lh = sample_de265, THEN conjunct2, THEN conjunct1] h
  have 1: "hevc_decode sample_de265 4096 None 5 1 sample_hevc_session
      = Inr (0, sample_hevc_session)" by simp
  from T [where sh = sample_hevc_session and h = 4096 and d = "Some sample_chunk" and sz = 0
      and k = 1 and Lh = sample_de265, THEN conjunct2, THEN conjunct1] h n
  have 2: "hevc_decode sample_de265 4096 (Some sample_chunk) 0 1 sample_hevc_session
       = Inr (0, sample_hevc_session)" by simp
  from T [where sa = sample_av1_session and h = 4096 and d = "Some sample_chunk"
      and sz = "- 1" and k = 0 and La = sample_dav1d, THEN conjunct1] a n
  have 3: "av1_decode sample_dav1d 4096 (Some sample_chunk) (- 1) 0 sample_av1_session
       = Some (Inr (0, sample_av1_session))" by simp
  from T [where sv = sample_vp9_session and h = 4096 and d = None and sz = 0 and k = 0
      and Lv = sample_vpx, THEN conjunct2, THEN conjunct2] v
  have 4: "vp9_decode sample_vpx 4096 None 0 0 sample_vp9_session
      = Inr (0, sample_vp9_session)" by simp
  from 1 2 3 4 show ?thesis by simp
qed

text \<open>
  C8. \<open>av1_configure\<close> and \<open>vp9_configure\<close> return the state they were given, for every
  handle, configuration pointer and length; so every sequence of decode calls gives the
  same tokens and the same final state after a configure call as without it.
\<close>

theorem configure_is_noop:
  "av1_configure h config n sa = sa
   \<and> av1_decode_calls La h' calls (av1_configure h config n sa) = av1_decode_calls La h' calls sa
   \<and> vp9_configure h config n sv = sv
   \<and> vp9_decode_calls Lv h' calls (vp9_configure h config n sv) = vp9_decode_calls Lv h' calls sv"
  by (simp add: av1_configure_def vp9_configure_def)

theorem configure_is_noop_witness:
  "vp9_configure 4096 (Some sample_chunk) 4 sample_vp9_session = sample_vp9_session
   \<and> vp9_decode_calls sample_vpx 4096 [(Some sample_chunk, 3, 1), (Some sample_chunk, 2, 0)]
        (vp9_configure 4096 (Some sample_chunk) 4 sample_vp9_session)
     = vp9_decode_calls sample_vpx 4096 [(Some sample_chunk, 3, 1), (Some sample_chunk, 2, 0)]
        sample_vp9_session
   \<and> av1_configure 4096 None 0 sample_av1_session = sample_av1_session
   \<and> av1_decode_calls sample_dav1d 4096 [(Some sample_chunk, 3, 1)]
        (av1_configure 4096 None 0 sample_av1_session)
     = av1_decode_calls sample_dav1d 4096 [(Some sample_chunk, 3, 1)] sample_av1_session"
proof -
  note V = configure_is_noop [where h = 4096 and config = "Some sample_chunk" and n = 4
      and sv = sample_vp9_session and Lv = sample_vpx and h' = 4096
      and calls = "[(Some sample_chunk, 3, 1), (Some sample_chunk, 2, 0)]"]
  note A = configure_is_noop [where h = 4096 and config = None and n = 0
      and sa = sample_av1_session and La = sample_dav1d and h' = 4096
      and calls = "[(Some sample_chunk, 3, 1)]"]
  show ?thesis
    by (intro conjI)
       (rule V [THEN conjunct2, THEN conjunct2, THEN conjunct1]
          V [THEN conjunct2, THEN conjunct2, THEN conjunct2]
          A [THEN conjunct1] A [THEN conjunct2, THEN conjunct1])+
qed

text \<open>
  C9. In every adapter, decode returns the same token and the same state whatever the
  value of the keyframe hint. (For AV1 the result includes \<open>None\<close>, the run that never
  leaves the send loop: the two calls then both do not return.)
\<close>

theorem decode_ignores_keyframe_hint:
  "av1_decode La h d n k1 sa = av1_decode La h d n k2 sa
   \<and> hevc_decode Lh h d n k1 sh = hevc_decode Lh h d n k2 sh
   \<and> vp9_decode Lv h d n k1 sv = vp9_decode Lv h d n k2 sv"
  by (simp add: av1_decode_def hevc_decode_def vp9_decode_def)

theorem decode_ignores_keyframe_hint_witness:
  "hevc_decode sample_de265 4096 (Some sample_chunk) 3 0 sample_hevc_session
     = hevc_decode sample_de265 4096 (Some sample_chunk) 3 1 sample_hevc_session
   \<and> vp9_decode sample_vpx 4096 (Some sample_chunk) 3 0 sample_vp9_session
     = vp9_decode sample_vpx 4096 (Some sample_chunk) 3 (- 1) sample_vp9_session
   \<and> av1_decode sample_dav1d 4096 (Some sample_chunk) 3 0 sample_av1_session
     = av1_decode sample_dav1d 4096 (Some sample_chunk) 3 1 sample_av1_session"
proof -
  note H = decode_ignores_keyframe_hint [where La = sample_dav1d and h = 4096
      and d = "Some sample_chunk" and n = 3 and ?k1.0 = 0 and ?k2.0 = 1
      and sa = sample_av1_session and Lh = sample_de265 and sh = sample_hevc_session]
  note V = decode_ignores_keyframe_hint [where h = 4096
      and d = "Some sample_chunk" and n = 3 and ?k1.0 = 0 and ?k2.0 = "- 1"
      and Lv = sample_vpx and sv = sample_vp9_session]
  show ?thesis
    by (intro conjI)
       (rule H [THEN conjunct2, THEN conjunct1] V [THEN conjunct2, THEN conjunct2]
          H [THEN conjunct1])+
qed

text \<open>
  C10. Every record the VP9 extractor returns states bit depth 10 when the image format
  carries the high-bit-depth flag and 8 when it does not; no other value is stored.
\<close>

theorem vp9_bit_depth_from_flag:
  assumes "vp9_extract_image K m (Some img) s = Inr (tok, t)" and "tok \<noteq> 0"
  shows "\<exists>f. blocks t tok = Some (Frame f) \<and>
     bitDepth f = (if fmt img AND VPX_IMG_FMT_HIGHBITDEPTH K \<noteq> 0 then 10 else 8)"
proof -
  from vp9_extract_header [OF assms] obtain f where f: "blocks t tok = Some (Frame f)"
    and h: "f\<lparr>yPtr := 0, uPtr := 0, vPtr := 0\<rparr> = vp9_frame_header K img"
    by auto
  have "bitDepth f = bitDepth (f\<lparr>yPtr := 0, uPtr := 0, vPtr := 0\<rparr>)" by simp
  then have "bitDepth f = vpx_fmt_bpc K (fmt img)"
    unfolding h by (simp add: vp9_frame_header_def Let_def)
  with f show ?thesis by (simp add: vpx_fmt_bpc_def)
qed

theorem vp9_bit_depth_from_flag_witness:
  "\<exists>tok t f. vp9_extract_image libvpx_img_fmt sample_memory (Some sample_vpx_image)
       (sample_heap :: unit heap) = Inr (tok, t) \<and> tok \<noteq> 0
     \<and> blocks t tok = Some (Frame f) \<and> bitDepth f = 10"
proof -
  have b: "vpx_fmt_bpc libvpx_img_fmt (fmt sample_vpx_image) = 10"
    by (simp add: vpx_fmt_bpc_def libvpx_img_fmt_def sample_vpx_image_def)
  have g: "geometry_ok (d_w sample_vpx_image) (d_h sample_vpx_image)
      (vpx_fmt_bpc libvpx_img_fmt (fmt sample_vpx_image))"
    unfolding b using sample_geometry(4) by (simp add: sample_vpx_image_def)
  from vp9_extract_total [OF sample_allocs g, of sample_memory]
  obtain tok and t :: "unit heap" where
    r: "vp9_extract_image libvpx_img_fmt sample_memory (Some sample_vpx_image) sample_heap
       = Inr (tok, t)" and nz: "tok \<noteq> 0" by blast
  from vp9_bit_depth_from_flag [OF r nz] b r nz show ?thesis
    by (auto simp: vpx_fmt_bpc_def)
qed


end
